theory Spec2Isabelle
  imports Complex_Main
begin

section \<open>Values written into the page\<close>

text \<open>
  The controller builds the strings it displays by concatenation and template literals.
  A displayed text is kept as the list of its pieces, so that no number formatting has
  to be modelled: \<open>Str s\<close> is a literal chunk, \<open>Num x\<close> is JavaScript's rendering
  \<^verbatim>\<open>String(x)\<close> of the number \<open>x\<close>, \<open>Fixed1 x\<close> is \<^verbatim>\<open>x.toFixed(1)\<close>,
  \<open>LocaleTime s\<close> is \<^verbatim>\<open>new Date(s).toLocaleTimeString()\<close> and \<open>LocaleTimeAt t\<close> is
  the same rendering of the clock value \<open>t\<close> (milliseconds).
\<close>

datatype piece = Str string | Num real | Fixed1 real | LocaleTime string | LocaleTimeAt nat

type_synonym jsstring = "piece list"

text \<open>
  Exceptions are values. \<open>HttpError st\<close> is the \<^verbatim>\<open>Error\<close> thrown for a response whose
  \<^verbatim>\<open>ok\<close> flag is false, \<open>NetworkError m\<close> a rejected \<^verbatim>\<open>fetch\<close>, \<open>SyntaxError m\<close> a
  rejected \<^verbatim>\<open>response.json()\<close>, and \<open>TypeError m\<close> a property access on
  \<^verbatim>\<open>null\<close> or \<^verbatim>\<open>undefined\<close>.
\<close>

datatype error = HttpError nat | NetworkError string | SyntaxError string | TypeError string

fun message :: "error \<Rightarrow> jsstring" where
  "message (HttpError st) = [Str ''HTTP error! status: '', Num (real st)]"
| "message (NetworkError m) = [Str m]"
| "message (SyntaxError m) = [Str m]"
| "message (TypeError m) = [Str m]"

datatype completion = Normal | Throw error

section \<open>The page\<close>

text \<open>
  An element of the page with the properties the controller reads or writes.
  \<open>className\<close> is the list of class tokens (\<^verbatim>\<open>classList\<close>), \<open>display\<close> and \<open>width\<close>
  are \<^verbatim>\<open>style.display\<close> and \<^verbatim>\<open>style.width\<close>, \<open>children\<close> are the nodes added with
  \<^verbatim>\<open>appendChild\<close>, and \<open>previousElementSibling\<close> is the class list of the element
  before this one (\<open>None\<close> when there is none). No element of the page is written through
  both \<^verbatim>\<open>textContent\<close> and \<^verbatim>\<open>innerHTML\<close>, so the two are independent fields.
\<close>

record child =
  childClassName :: "string list"
  childInnerHTML :: jsstring
  animationDelayTenths :: nat

record element =
  textContent :: jsstring
  innerHTML :: jsstring
  className :: "string list"
  display :: string
  width :: jsstring
  disabled :: bool
  children :: "child list"
  previousElementSibling :: "string list option"

definition classList_add :: "string \<Rightarrow> string list \<Rightarrow> string list" where
  "classList_add c cs = (if c \<in> set cs then cs else cs @ [c])"

definition classList_remove :: "string \<Rightarrow> string list \<Rightarrow> string list" where
  "classList_remove c cs = filter (\<lambda>x. x \<noteq> c) cs"

section \<open>Backend response contract\<close>

record HealthSnapshot =
  timestamp :: string
  heart_rate :: real
  blood_oxygen :: real
  temperature :: real
  activity_level :: real
  sleep_quality :: real
  stress_level :: real
  health_score :: real

record AnomalyResult =
  status :: string
  is_anomaly :: bool
  risk_level :: string

text \<open>\<open>recommendation_items\<close> is \<^verbatim>\<open>recommendations.recommendations\<close> (\<open>None\<close> when the
  field is missing or null); \<open>model_metrics\<close> is \<^verbatim>\<open>metrics.metrics\<close>.\<close>

record RecommendationSet =
  recommendation_items :: "string list option"
  priority :: string

record ModelMetrics =
  accuracy :: real
  total_samples :: real
  detected_anomalies :: real

record MetricsEnvelope =
  model_metrics :: "ModelMetrics option"

record Snapshot =
  health_data :: "HealthSnapshot option"
  anomaly_result :: AnomalyResult
  recommendations :: RecommendationSet
  metrics :: MetricsEnvelope

text \<open>The outcome of a \<^verbatim>\<open>fetch\<close> followed by \<^verbatim>\<open>response.json()\<close>: the request is
  rejected, or a response with an HTTP status arrives whose body parses or does not.\<close>

datatype 'a body = Malformed string | Json 'a

datatype 'a fetch_result = Rejected string | Response nat "'a body"

definition ok :: "nat \<Rightarrow> bool" where
  "ok st = (200 \<le> st \<and> st \<le> 299)"

section \<open>The chart\<close>

record dataset =
  label :: string
  data :: "real list"

record Chart =
  labels :: "jsstring list"
  datasets :: "dataset list"

section \<open>Controller and browser state\<close>

text \<open>
  \<open>HideAlert\<close>, \<open>RemoveUpdated id\<close> and \<open>UpdateHealthData\<close> are the three closures the
  controller passes to \<^verbatim>\<open>setTimeout\<close>. A request in flight remembers the continuation
  of the function that issued it; the three scan controls and the retrain control capture
  the original caption of their button.
\<close>

datatype callback = HideAlert | RemoveUpdated string | UpdateHealthData

datatype request =
  HealthDataReq | RetrainReq jsstring | NormalScanReq jsstring | EmergencyScanReq jsstring | ResetReq jsstring

record HealthDashboard =
  updateInterval :: nat
  isUpdating :: bool
  chart :: "Chart option"
  lastUpdateTime :: "nat option"
  emergencyMode :: bool
  updateTimer :: "nat option"

text \<open>
  The browser around the controller: the page (\<open>document\<close>, element by id),
  \<^verbatim>\<open>document.hidden\<close>, a millisecond clock, the pending one-shot timers (deadline and
  closure, in scheduling order; their handles are discarded by the code), the pending
  interval timers (handle, next deadline, period; the closure is always
  \<^verbatim>\<open>updateHealthData\<close>), the requests in flight and the errors written to the console.
\<close>

record world = HealthDashboard +
  document :: "string \<rightharpoonup> element"
  hidden :: bool
  now :: nat
  nextTimerId :: nat
  timeouts :: "(nat \<times> callback) list"
  intervals :: "(nat \<times> nat \<times> nat) list"
  pending :: "request list"
  console :: "(string \<times> error) list"

definition setTimeout :: "callback \<Rightarrow> nat \<Rightarrow> world \<Rightarrow> world" where
  "setTimeout cb delay w = w\<lparr>timeouts := timeouts w @ [(now w + delay, cb)]\<rparr>"

definition setElement :: "string \<Rightarrow> element \<Rightarrow> world \<Rightarrow> world" where
  "setElement i e w = w\<lparr>document := (document w)(i \<mapsto> e)\<rparr>"

section \<open>Alerts, loading overlay, connection indicator\<close>

definition setText :: "string \<Rightarrow> jsstring \<Rightarrow> world \<Rightarrow> world" where
  "setText i v w =
     (case document w i of
        Some e \<Rightarrow> setElement i (e\<lparr>textContent := v\<rparr>) w
      | None \<Rightarrow> w)"

definition showAlert :: "string \<Rightarrow> jsstring \<Rightarrow> world \<Rightarrow> world" where
  "showAlert type msg w =
     (case (document w ''alertSection'', document w ''healthAlert'', document w ''alertMessage'') of
        (Some alertSection, Some alertElement, Some messageElement) \<Rightarrow>
          setTimeout HideAlert 5000
            (setElement ''alertSection'' (alertSection\<lparr>display := ''block''\<rparr>)
              (setElement ''alertMessage'' (messageElement\<lparr>textContent := msg\<rparr>)
                (setElement ''healthAlert''
                  (alertElement\<lparr>className :=
                     [''alert'', ''alert-'' @ type, ''alert-dismissible'', ''fade'', ''show'']\<rparr>) w)))
      | _ \<Rightarrow> w)"

definition showLoading :: "bool \<Rightarrow> world \<Rightarrow> world" where
  "showLoading show w =
     (case document w ''loadingOverlay'' of
        Some overlay \<Rightarrow>
          setElement ''loadingOverlay''
            (overlay\<lparr>className :=
               (if show then classList_add ''show'' (className overlay)
                else classList_remove ''show'' (className overlay))\<rparr>) w
      | None \<Rightarrow> w)"

text \<open>\<^verbatim>\<open>updateConnectionStatus\<close> writes the text first and then dereferences the previous
  sibling: without a sibling the text is already changed when the TypeError is thrown.\<close>

definition updateConnectionStatus :: "bool \<Rightarrow> world \<Rightarrow> completion \<times> world" where
  "updateConnectionStatus isConnected w =
     (case document w ''connectionStatus'' of
        Some statusElement \<Rightarrow>
          (let e1 = statusElement\<lparr>textContent :=
                      [Str (if isConnected then ''Connected'' else ''Disconnected'')]\<rparr>
           in case previousElementSibling e1 of
                None \<Rightarrow>
                  (Throw (TypeError ''Cannot set properties of null (setting 'className')''),
                   setElement ''connectionStatus'' e1 w)
              | Some _ \<Rightarrow>
                  (Normal,
                   setElement ''connectionStatus''
                     (e1\<lparr>previousElementSibling := Some
                        (if isConnected then [''fas'', ''fa-wifi'', ''text-success'', ''me-1'']
                         else [''fas'', ''fa-wifi'', ''text-danger'', ''me-1''])\<rparr>) w))
      | None \<Rightarrow> (Normal, w))"

section \<open>Rendering one snapshot\<close>

definition degreesF :: string where
  "degreesF = [CHR 0xC2, CHR 0xB0, CHR ''F'']"

definition updateMetrics :: "HealthSnapshot option \<Rightarrow> world \<Rightarrow> world" where
  "updateMetrics healthData w =
     (case healthData of
        None \<Rightarrow>
          fold (\<lambda>i. setText i [Str ''--''])
            [''heartRate'', ''bloodOxygen'', ''temperature'',
             ''activityLevel'', ''sleepQuality'', ''stressLevel'']
      | Some h \<Rightarrow>
          fold (\<lambda>(i, v) w. case document w i of
                         Some element \<Rightarrow>
                           setTimeout (RemoveUpdated i) 1000
                             (setElement i
                               (element\<lparr>textContent := v,
                                  className := classList_add ''updated'' (className element)\<rparr>) w)
                       | None \<Rightarrow> w)
            [(''heartRate'', [Num (heart_rate h)]),
             (''bloodOxygen'', [Num (blood_oxygen h), Str ''%'']),
             (''temperature'', [Num (temperature h), Str degreesF]),
             (''activityLevel'', [Num (activity_level h)]),
             (''sleepQuality'', [Num (sleep_quality h)]),
             (''stressLevel'', [Num (stress_level h)])])
       w"

text \<open>The second block of \<^verbatim>\<open>updateHealthStatus\<close>: the score and its progress bar.\<close>

definition updateHealthStatus_score :: "HealthSnapshot option \<Rightarrow> world \<Rightarrow> world" where
  "updateHealthStatus_score healthData w =
     (case (document w ''healthScore'', document w ''healthScoreBar'') of
        (Some scoreElement, Some scoreBarElement) \<Rightarrow>
          (case healthData of
             None \<Rightarrow>
               setElement ''healthScoreBar''
                 (scoreBarElement\<lparr>width := [Str ''0%''], className := [''progress-bar'']\<rparr>)
                 (setElement ''healthScore'' (scoreElement\<lparr>textContent := [Str ''--'']\<rparr>) w)
           | Some h \<Rightarrow>
               (let healthScore = health_score h
                in setElement ''healthScoreBar''
                     (scoreBarElement\<lparr>width := [Num healthScore, Str ''%''],
                        className :=
                          (if healthScore \<ge> 80 then classList_add ''bg-success'' [''progress-bar'']
                           else if healthScore \<ge> 60 then classList_add ''bg-warning'' [''progress-bar'']
                           else classList_add ''bg-danger'' [''progress-bar''])\<rparr>)
                     (setElement ''healthScore''
                        (scoreElement\<lparr>textContent := [Num healthScore]\<rparr>) w)))
      | _ \<Rightarrow> w)"

text \<open>\<^verbatim>\<open>updateHealthStatus\<close>: the first block returns from the whole function in the
  waiting case, so the score block is not reached there.\<close>

definition updateHealthStatus :: "AnomalyResult \<Rightarrow> HealthSnapshot option \<Rightarrow> world \<Rightarrow> world" where
  \<open>updateHealthStatus anomalyResult healthData w =
     (case (document w ''healthStatus'', document w ''statusIndicator'') of
        (Some statusElement, Some indicatorElement) \<Rightarrow>
          if status anomalyResult = ''Waiting for fingerprint scan...'' then
            setElement ''statusIndicator''
              (indicatorElement\<lparr>innerHTML := [Str ''<i class="fas fa-circle text-secondary"></i>''],
                 children := []\<rparr>)
              (setElement ''healthStatus''
                 (statusElement\<lparr>textContent := [Str ''Waiting for scan...'']\<rparr>) w)
          else
            (let isAnomaly = is_anomaly anomalyResult;
                 riskLevel = risk_level anomalyResult
             in if isAnomaly then
                  (let w1 = (setElement ''statusIndicator''
                       (indicatorElement\<lparr>innerHTML :=
                          [Str ''<i class="fas fa-circle text-danger emergency"></i>''],
                          children := []\<rparr>)
                       (setElement ''healthStatus''
                          (statusElement\<lparr>textContent :=
                             [Str (''Anomaly Detected ('' @ riskLevel @ '' Risk)'')]\<rparr>) w))
                       \<lparr>emergencyMode := True\<rparr>
                   in updateHealthStatus_score healthData
                        (if riskLevel = ''High'' then
                           showAlert ''danger''
                             [Str ''High risk health anomaly detected! Please monitor your symptoms closely.''] w1
                         else if riskLevel = ''Medium'' then
                           showAlert ''warning''
                             [Str ''Moderate health anomaly detected. Keep an eye on your metrics.''] w1
                         else w1))
                else
                  updateHealthStatus_score healthData
                    ((setElement ''statusIndicator''
                       (indicatorElement\<lparr>innerHTML :=
                          [Str ''<i class="fas fa-circle text-success normal"></i>''],
                          children := []\<rparr>)
                       (setElement ''healthStatus''
                          (statusElement\<lparr>textContent := [Str ''Normal'']\<rparr>) w))
                     \<lparr>emergencyMode := False\<rparr>))
      | _ \<Rightarrow> updateHealthStatus_score healthData w)\<close>

text \<open>\<^verbatim>\<open>toLowerCase\<close> on the ASCII letters; the priorities of the backend are ASCII words.\<close>

definition toLowerCase :: "string \<Rightarrow> string" where
  "toLowerCase s =
     map (\<lambda>c. let n = (of_char c :: nat) in if 65 \<le> n \<and> n \<le> 90 then char_of (n + 32) else c) s"

text \<open>The markup of one recommendation is kept without the template's line breaks and
  indentation; the animation delay \<^verbatim>\<open>index * 0.1\<close> seconds is kept as the index.\<close>

definition updateRecommendations :: "RecommendationSet \<Rightarrow> world \<Rightarrow> world" where
  \<open>updateRecommendations recs w =
     (case (document w ''recommendationsList'', recommendation_items recs) of
        (Some listElement, Some items) \<Rightarrow>
          (let appended = listElement\<lparr>innerHTML := [], children :=
                 map (\<lambda>(index, rec). \<lparr>childClassName =
                          [''recommendation-item'', ''priority-'' @ toLowerCase (priority recs)],
                        childInnerHTML =
                          [Str ''<div class="d-flex align-items-start"><i class="fas fa-lightbulb me-2 mt-1"></i><span>'',
                           Str rec, Str ''</span></div>''],
                        animationDelayTenths = index\<rparr>)
                   (enumerate 0 items)\<rparr>
           in setElement ''recommendationsList''
                (if length items = 0 then
                   appended\<lparr>innerHTML :=
                     [Str ''<p class="text-muted">No specific recommendations at this time. Keep monitoring your health!</p>''],
                     children := []\<rparr>
                 else appended) w)
      | _ \<Rightarrow> w)\<close>

definition updateModelMetrics :: "MetricsEnvelope \<Rightarrow> world \<Rightarrow> world" where
  "updateModelMetrics m w =
     (case model_metrics m of
        None \<Rightarrow> w
      | Some mm \<Rightarrow>
          setText ''anomaliesDetected'' [Num (detected_anomalies mm)]
            (setText ''trainingSamples'' [Num (total_samples mm)]
              (setText ''modelAccuracy'' [Fixed1 (accuracy mm * 100), Str ''%''] w)))"

definition updateLastUpdateTime :: "world \<Rightarrow> world" where
  "updateLastUpdateTime w =
     (case (document w ''lastUpdate'', lastUpdateTime w) of
        (Some element, Some t) \<Rightarrow>
          setElement ''lastUpdate''
            (element\<lparr>textContent := [Str ''Last updated: '', LocaleTimeAt t]\<rparr>) w
      | _ \<Rightarrow> w)"

section \<open>The chart buffer\<close>

text \<open>The data of the chart built by \<^verbatim>\<open>initChart\<close>: no labels and four empty datasets.\<close>

definition newChart :: Chart where
  "newChart = \<lparr>labels = [], datasets =
     [\<lparr>label = ''Heart Rate'', data = []\<rparr>, \<lparr>label = ''Blood Oxygen'', data = []\<rparr>,
      \<lparr>label = ''Temperature'', data = []\<rparr>, \<lparr>label = ''Health Score'', data = []\<rparr>]\<rparr>"

definition initChart :: "world \<Rightarrow> world" where
  "initChart w =
     (case document w ''healthChart'' of
        None \<Rightarrow> w
      | Some ctx \<Rightarrow> w\<lparr>chart := Some newChart\<rparr>)"

text \<open>\<^verbatim>\<open>datasets[i].data.push(v)\<close>, one after the other: a missing dataset throws after
  the earlier pushes have been made.\<close>

fun pushPoints :: "(nat \<times> real) list \<Rightarrow> Chart \<Rightarrow> completion \<times> Chart" where
  "pushPoints [] c = (Normal, c)"
| "pushPoints ((i, v) # ps) c =
     (if i < length (datasets c) then
        pushPoints ps
          (c\<lparr>datasets := (datasets c)[i := (datasets c ! i)\<lparr>data := data (datasets c ! i) @ [v]\<rparr>]\<rparr>)
      else (Throw (TypeError ''Cannot read properties of undefined (reading 'data')''), c))"

definition updateChart :: "HealthSnapshot option \<Rightarrow> world \<Rightarrow> completion \<times> world" where
  "updateChart healthData w =
     (case chart w of
        None \<Rightarrow> (Normal, w)
      | Some c \<Rightarrow>
          (case healthData of
             None \<Rightarrow> (Throw (TypeError ''Cannot read properties of null (reading 'timestamp')''), w)
           | Some h \<Rightarrow>
               (case pushPoints [(0, heart_rate h), (1, blood_oxygen h),
                                 (2, temperature h), (3, health_score h)]
                       (c\<lparr>labels := labels c @ [[LocaleTime (timestamp h)]]\<rparr>) of
                  (Throw e, c') \<Rightarrow> (Throw e, w\<lparr>chart := Some c'\<rparr>)
                | (Normal, c') \<Rightarrow>
                    (let maxPoints = 20
                     in (Normal,
                         w\<lparr>chart := Some
                           (if length (labels c') > maxPoints then
                              c'\<lparr>labels := tl (labels c'),
                                 datasets := map (\<lambda>d. d\<lparr>data := tl (data d)\<rparr>) (datasets c')\<rparr>
                            else c')\<rparr>)))))"

text \<open>The chart updates of a sequence of snapshots that carry health data, in arrival
  order; a throw ends the sequence.\<close>

fun updateChart_seq :: "HealthSnapshot list \<Rightarrow> world \<Rightarrow> completion \<times> world" where
  "updateChart_seq [] w = (Normal, w)"
| "updateChart_seq (h # hs) w =
     (case updateChart (Some h) w of
        (Normal, w') \<Rightarrow> updateChart_seq hs w'
      | (Throw e, w') \<Rightarrow> (Throw e, w'))"

text \<open>The chart that displays exactly the points \<open>ps\<close>, oldest first.\<close>

definition chartOf :: "HealthSnapshot list \<Rightarrow> Chart" where
  "chartOf ps = \<lparr>labels = map (\<lambda>h. [LocaleTime (timestamp h)]) ps, datasets =
     [\<lparr>label = ''Heart Rate'', data = map heart_rate ps\<rparr>,
      \<lparr>label = ''Blood Oxygen'', data = map blood_oxygen ps\<rparr>,
      \<lparr>label = ''Temperature'', data = map temperature ps\<rparr>,
      \<lparr>label = ''Health Score'', data = map health_score ps\<rparr>]\<rparr>"

section \<open>Polling\<close>

definition fetch :: "request \<Rightarrow> world \<Rightarrow> world" where
  "fetch r w = w\<lparr>pending := pending w @ [r]\<rparr>"

text \<open>
  An \<^verbatim>\<open>async\<close> function is two functions: the part that runs until the first
  \<^verbatim>\<open>await\<close>, named as in the source, and the part that runs when the awaited request has
  settled (\<open>_resume\<close>), which takes the outcome of \<^verbatim>\<open>fetch\<close> and \<^verbatim>\<open>response.json()\<close>
  together: the function changes nothing between the two awaits.
\<close>

definition updateHealthData :: "world \<Rightarrow> world" where
  "updateHealthData w =
     (if isUpdating w then w
      else fetch HealthDataReq (showLoading True (w\<lparr>isUpdating := True\<rparr>)))"

definition updateHealthData_try :: "Snapshot fetch_result \<Rightarrow> world \<Rightarrow> completion \<times> world" where
  "updateHealthData_try r w =
     (case r of
        Rejected m \<Rightarrow> (Throw (NetworkError m), w)
      | Response st b \<Rightarrow>
          if \<not> ok st then (Throw (HttpError st), w)
          else
            (case b of
               Malformed m \<Rightarrow> (Throw (SyntaxError m), w)
             | Json d \<Rightarrow>
                 (case updateChart (health_data d)
                         (updateModelMetrics (metrics d)
                           (updateRecommendations (recommendations d)
                             (updateHealthStatus (anomaly_result d) (health_data d)
                               (updateMetrics (health_data d) w)))) of
                    (Throw e, w') \<Rightarrow> (Throw e, w')
                  | (Normal, w') \<Rightarrow>
                      updateConnectionStatus True
                        (updateLastUpdateTime (w'\<lparr>lastUpdateTime := Some (now w')\<rparr>)))))"

definition updateHealthData_catch :: "error \<Rightarrow> world \<Rightarrow> completion \<times> world" where
  "updateHealthData_catch e w =
     updateConnectionStatus False
       (showAlert ''error'' (Str ''Failed to update health data: '' # message e)
         (w\<lparr>console := console w @ [(''Error updating health data:'', e)]\<rparr>))"

definition updateHealthData_resume :: "Snapshot fetch_result \<Rightarrow> world \<Rightarrow> completion \<times> world" where
  "updateHealthData_resume r w =
     (let (c, w') = (case updateHealthData_try r w of
                       (Normal, w1) \<Rightarrow> (Normal, w1)
                     | (Throw e, w1) \<Rightarrow> updateHealthData_catch e w1)
      in (c, (showLoading False w')\<lparr>isUpdating := False\<rparr>))"

text \<open>Timer handles are positive integers, so \<^verbatim>\<open>if (this.updateTimer)\<close> tests exactly
  whether a handle is stored.\<close>

definition clearInterval :: "nat \<Rightarrow> world \<Rightarrow> world" where
  "clearInterval t w = w\<lparr>intervals := filter (\<lambda>(i, _, _). i \<noteq> t) (intervals w)\<rparr>"

definition setInterval :: "nat \<Rightarrow> world \<Rightarrow> nat \<times> world" where
  "setInterval period w =
     (nextTimerId w,
      w\<lparr>intervals := intervals w @ [(nextTimerId w, now w + period, period)],
        nextTimerId := nextTimerId w + 1\<rparr>)"

definition startDataUpdates :: "world \<Rightarrow> completion \<times> world" where
  "startDataUpdates w =
     (let w1 = (case updateTimer w of Some t \<Rightarrow> clearInterval t w | None \<Rightarrow> w);
          (t, w2) = setInterval (updateInterval w1) w1
      in updateConnectionStatus True (w2\<lparr>updateTimer := Some t\<rparr>))"

definition stopDataUpdates :: "world \<Rightarrow> completion \<times> world" where
  "stopDataUpdates w =
     updateConnectionStatus False
       (case updateTimer w of
          Some t \<Rightarrow> (clearInterval t w)\<lparr>updateTimer := None\<rparr>
        | None \<Rightarrow> w)"

text \<open>The listener for \<^verbatim>\<open>visibilitychange\<close>; the browser has set \<^verbatim>\<open>document.hidden\<close>
  before it runs. An exception that leaves a listener is reported and dropped.\<close>

definition visibilitychange :: "bool \<Rightarrow> world \<Rightarrow> world" where
  "visibilitychange h w =
     (let w1 = w\<lparr>hidden := h\<rparr>
      in if hidden w1 then snd (stopDataUpdates w1) else snd (startDataUpdates w1))"

definition beforeunload :: "world \<Rightarrow> world" where
  "beforeunload w = snd (stopDataUpdates w)"

text \<open>\<^verbatim>\<open>init\<close>; the listeners registered by \<^verbatim>\<open>setupEventListeners\<close> are the cases of
  \<open>step\<close> below.\<close>

definition init :: "world \<Rightarrow> completion \<times> world" where
  "init w =
     (case startDataUpdates (initChart w) of
        (Throw e, w') \<Rightarrow> (Throw e, w')
      | (Normal, w') \<Rightarrow> (Normal, updateHealthData w'))"

text \<open>The constructor, run on \<^verbatim>\<open>DOMContentLoaded\<close> over the page \<open>d\<close>.\<close>

definition HealthDashboard_new :: "(string \<rightharpoonup> element) \<Rightarrow> world" where
  "HealthDashboard_new d =
     snd (init \<lparr>updateInterval = 5000, isUpdating = False, chart = None, lastUpdateTime = None,
                emergencyMode = False, updateTimer = None, document = d, hidden = False,
                now = 0, nextTimerId = 1, timeouts = [], intervals = [], pending = [],
                console = []\<rparr>)"

section \<open>Session controls\<close>

text \<open>
  The body of the acknowledgement is its \<^verbatim>\<open>message\<close>. The continuation reads its
  buttons and sections again by id: the set of ids of the page never changes, so this is
  the element the source captured before the request.
\<close>

definition disableButton :: "string \<Rightarrow> jsstring \<Rightarrow> world \<Rightarrow> world" where
  "disableButton i caption w =
     (case document w i of
        Some button \<Rightarrow> setElement i (button\<lparr>disabled := True, innerHTML := caption, children := []\<rparr>) w
      | None \<Rightarrow> w)"

definition enableButton :: "string \<Rightarrow> jsstring \<Rightarrow> world \<Rightarrow> world" where
  "enableButton i originalText w =
     (case document w i of
        Some button \<Rightarrow>
          setElement i (button\<lparr>disabled := False, innerHTML := originalText, children := []\<rparr>) w
      | None \<Rightarrow> w)"

definition setDisplay :: "string \<Rightarrow> string \<Rightarrow> world \<Rightarrow> world" where
  "setDisplay i v w =
     (case document w i of
        Some e \<Rightarrow> setElement i (e\<lparr>display := v\<rparr>) w
      | None \<Rightarrow> w)"

text \<open>What the \<^verbatim>\<open>try\<close> block of every action does with the settled request before its
  own statements: throw, or hand over the parsed body.\<close>

definition settled :: "'a fetch_result \<Rightarrow> error + 'a" where
  "settled r =
     (case r of
        Rejected m \<Rightarrow> Inl (NetworkError m)
      | Response st b \<Rightarrow>
          if \<not> ok st then Inl (HttpError st)
          else (case b of Malformed m \<Rightarrow> Inl (SyntaxError m) | Json v \<Rightarrow> Inr v))"

definition retrainModel :: "world \<Rightarrow> world" where
  \<open>retrainModel w =
     (case document w ''retrainBtn'' of
        None \<Rightarrow> w
      | Some button \<Rightarrow>
          fetch (RetrainReq (innerHTML button))
            (disableButton ''retrainBtn''
               [Str ''<i class="fas fa-spinner fa-spin me-2"></i>Retraining...''] w))\<close>

definition retrainModel_resume :: "jsstring \<Rightarrow> string fetch_result \<Rightarrow> world \<Rightarrow> world" where
  "retrainModel_resume originalText r w =
     enableButton ''retrainBtn'' originalText
       (case settled r of
          Inr result \<Rightarrow>
            setTimeout UpdateHealthData 1000
              (showAlert ''success'' [Str ''Model retrained successfully!''] w)
        | Inl e \<Rightarrow>
            showAlert ''danger'' (Str ''Failed to retrain model: '' # message e)
              (w\<lparr>console := console w @ [(''Error retraining model:'', e)]\<rparr>))"

definition triggerNormalScan :: "world \<Rightarrow> world" where
  \<open>triggerNormalScan w =
     (case document w ''normalScanBtn'' of
        None \<Rightarrow> w
      | Some normalBtn \<Rightarrow>
          fetch (NormalScanReq (innerHTML normalBtn))
            (disableButton ''normalScanBtn''
               [Str ''<i class="fas fa-spinner fa-spin me-2"></i>Scanning...''] w))\<close>

definition triggerNormalScan_resume :: "jsstring \<Rightarrow> string fetch_result \<Rightarrow> world \<Rightarrow> world" where
  "triggerNormalScan_resume originalText r w =
     enableButton ''normalScanBtn'' originalText
       (case settled r of
          Inr result \<Rightarrow>
            setTimeout UpdateHealthData 500
              (setDisplay ''stopBtn'' ''block''
                (setDisplay ''fingerprintSection'' ''none''
                  (showAlert ''success'' [Str result] w)))
        | Inl e \<Rightarrow>
            showAlert ''danger'' (Str ''Failed to start normal monitoring: '' # message e)
              (w\<lparr>console := console w @ [(''Error triggering normal scan:'', e)]\<rparr>))"

definition triggerEmergencyScan :: "world \<Rightarrow> world" where
  \<open>triggerEmergencyScan w =
     (case document w ''emergencyScanBtn'' of
        None \<Rightarrow> w
      | Some emergencyBtn \<Rightarrow>
          fetch (EmergencyScanReq (innerHTML emergencyBtn))
            (disableButton ''emergencyScanBtn''
               [Str ''<i class="fas fa-spinner fa-spin me-2"></i>Scanning...''] w))\<close>

definition triggerEmergencyScan_resume :: "jsstring \<Rightarrow> string fetch_result \<Rightarrow> world \<Rightarrow> world" where
  "triggerEmergencyScan_resume originalText r w =
     enableButton ''emergencyScanBtn'' originalText
       (case settled r of
          Inr result \<Rightarrow>
            setTimeout UpdateHealthData 500
              (setDisplay ''stopBtn'' ''block''
                (setDisplay ''fingerprintSection'' ''none''
                  (showAlert ''danger'' [Str result] w)))
        | Inl e \<Rightarrow>
            showAlert ''danger'' (Str ''Failed to start emergency monitoring: '' # message e)
              (w\<lparr>console := console w @ [(''Error triggering emergency scan:'', e)]\<rparr>))"

definition stopMonitoring :: "world \<Rightarrow> world" where
  \<open>stopMonitoring w =
     (case document w ''stopBtn'' of
        None \<Rightarrow> w
      | Some stopBtn \<Rightarrow>
          fetch (ResetReq (innerHTML stopBtn))
            (disableButton ''stopBtn''
               [Str ''<i class="fas fa-spinner fa-spin me-2"></i>Stopping...''] w))\<close>

definition stopMonitoring_resume :: "jsstring \<Rightarrow> string fetch_result \<Rightarrow> world \<Rightarrow> world" where
  "stopMonitoring_resume originalText r w =
     enableButton ''stopBtn'' originalText
       (case settled r of
          Inr result \<Rightarrow>
            setTimeout UpdateHealthData 500
              (setDisplay ''stopBtn'' ''none''
                (setDisplay ''fingerprintSection'' ''block''
                  (showAlert ''info'' [Str result] w)))
        | Inl e \<Rightarrow>
            showAlert ''danger'' (Str ''Failed to stop monitoring: '' # message e)
              (w\<lparr>console := console w @ [(''Error stopping monitoring:'', e)]\<rparr>))"

section \<open>The event loop\<close>

fun runCallback :: "callback \<Rightarrow> world \<Rightarrow> world" where
  "runCallback HideAlert w = setDisplay ''alertSection'' ''none'' w"
| "runCallback (RemoveUpdated i) w =
     (case document w i of
        Some element \<Rightarrow>
          setElement i (element\<lparr>className := classList_remove ''updated'' (className element)\<rparr>) w
      | None \<Rightarrow> w)"
| "runCallback UpdateHealthData w = updateHealthData w"

datatype control = RetrainBtn | NormalScanBtn | EmergencyScanBtn | StopBtn

fun controlId :: "control \<Rightarrow> string" where
  "controlId RetrainBtn = ''retrainBtn''"
| "controlId NormalScanBtn = ''normalScanBtn''"
| "controlId EmergencyScanBtn = ''emergencyScanBtn''"
| "controlId StopBtn = ''stopBtn''"

fun click :: "control \<Rightarrow> world \<Rightarrow> world" where
  "click RetrainBtn w = retrainModel w"
| "click NormalScanBtn w = triggerNormalScan w"
| "click EmergencyScanBtn w = triggerEmergencyScan w"
| "click StopBtn w = stopMonitoring w"

fun resume :: "request \<Rightarrow> string fetch_result \<Rightarrow> world \<Rightarrow> world option" where
  "resume HealthDataReq r w = None"
| "resume (RetrainReq t) r w = Some (retrainModel_resume t r w)"
| "resume (NormalScanReq t) r w = Some (triggerNormalScan_resume t r w)"
| "resume (EmergencyScanReq t) r w = Some (triggerEmergencyScan_resume t r w)"
| "resume (ResetReq t) r w = Some (stopMonitoring_resume t r w)"

text \<open>
  One turn of the single-threaded event loop. The clock only moves with \<open>Elapse\<close>, and
  never past the deadline of a timer that has not run; a timer runs when its deadline has
  come, one-shot timers earliest deadline first and, among equal deadlines, in scheduling
  order. A click reaches a button that exists and is enabled. A response settles a request
  that is in flight. An event that cannot happen in the state gives \<open>None\<close>.
\<close>

datatype event =
    Elapse nat
  | FireTimeout
  | FireInterval nat
  | Click control
  | VisibilityChange bool
  | HealthDataResponse "Snapshot fetch_result"
  | ActionResponse nat "string fetch_result"
  | BeforeUnload

fun step :: "event \<Rightarrow> world \<Rightarrow> world option" where
  "step (Elapse d) w =
     (if list_all (\<lambda>(dl, _). now w + d \<le> dl) (timeouts w) \<and>
         list_all (\<lambda>(_, dl, _). now w + d \<le> dl) (intervals w)
      then Some (w\<lparr>now := now w + d\<rparr>) else None)"
| "step FireTimeout w =
     (case find (\<lambda>(dl, _). list_all (\<lambda>(dl', _). dl \<le> dl') (timeouts w)) (timeouts w) of
        None \<Rightarrow> None
      | Some (dl, cb) \<Rightarrow>
          if dl \<le> now w
          then Some (runCallback cb (w\<lparr>timeouts := remove1 (dl, cb) (timeouts w)\<rparr>))
          else None)"
| "step (FireInterval i) w =
     (case find (\<lambda>(j, _, _). j = i) (intervals w) of
        None \<Rightarrow> None
      | Some (j, dl, p) \<Rightarrow>
          if dl \<le> now w
          then Some (updateHealthData
                 (w\<lparr>intervals := map (\<lambda>(j', dl', p'). if j' = i then (j', dl' + p', p')
                                                      else (j', dl', p')) (intervals w)\<rparr>))
          else None)"
| "step (Click c) w =
     (case document w (controlId c) of
        None \<Rightarrow> None
      | Some button \<Rightarrow> if disabled button then None else Some (click c w))"
| "step (VisibilityChange h) w = Some (visibilitychange h w)"
| "step (HealthDataResponse r) w =
     (if HealthDataReq \<in> set (pending w)
      then Some (snd (updateHealthData_resume r (w\<lparr>pending := remove1 HealthDataReq (pending w)\<rparr>)))
      else None)"
| "step (ActionResponse k r) w =
     (if k < length (pending w)
      then resume (pending w ! k) r (w\<lparr>pending := take k (pending w) @ drop (Suc k) (pending w)\<rparr>)
      else None)"
| "step BeforeUnload w = Some (beforeunload w)"

fun run :: "event list \<Rightarrow> world \<Rightarrow> world option" where
  "run [] w = Some w"
| "run (e # es) w = (case step e w of None \<Rightarrow> None | Some w' \<Rightarrow> run es w')"

section \<open>The page of the repository\<close>

text \<open>The elements of \<^verbatim>\<open>index.html\<close> that the controller looks up, as the page is
  served: the alert section and the stop button are not displayed, every tile shows
  \<^verbatim>\<open>--\<close>, the connection indicator has the wifi icon before it.\<close>

definition blank :: element where
  "blank = \<lparr>textContent = [], innerHTML = [], className = [], display = [], width = [],
            disabled = False, children = [], previousElementSibling = None\<rparr>"

definition tile :: element where
  "tile = blank\<lparr>textContent := [Str ''--''], className := [''metric-value'']\<rparr>"

definition index_html :: "string \<rightharpoonup> element" where
  \<open>index_html = map_of
     [(''connectionStatus'', blank\<lparr>textContent := [Str ''Connected''],
          previousElementSibling := Some [''fas'', ''fa-wifi'', ''text-success'', ''me-1'']\<rparr>),
      (''alertSection'', blank\<lparr>className := [''mb-4''], display := ''none''\<rparr>),
      (''healthAlert'', blank\<lparr>className := [''alert'', ''alert-dismissible'', ''fade'', ''show'']\<rparr>),
      (''alertMessage'', blank),
      (''statusIndicator'', blank\<lparr>className := [''health-status-indicator'', ''me-3''],
          innerHTML := [Str ''<i class="fas fa-circle text-success"></i>'']\<rparr>),
      (''healthStatus'', blank\<lparr>textContent := [Str ''Normal''], className := [''mb-0'']\<rparr>),
      (''healthScore'', blank\<lparr>textContent := [Str ''--''], className := [''mb-0'']\<rparr>),
      (''healthScoreBar'', blank\<lparr>className := [''progress-bar''], width := [Str ''0%'']\<rparr>),
      (''lastUpdate'', blank\<lparr>textContent := [Str ''Last updated: --''], className := [''text-muted'']\<rparr>),
      (''heartRate'', tile), (''bloodOxygen'', tile), (''temperature'', tile),
      (''activityLevel'', tile), (''sleepQuality'', tile), (''stressLevel'', tile),
      (''modelAccuracy'', blank\<lparr>textContent := [Str ''--'']\<rparr>),
      (''trainingSamples'', blank\<lparr>textContent := [Str ''--'']\<rparr>),
      (''anomaliesDetected'', blank\<lparr>textContent := [Str ''--'']\<rparr>),
      (''retrainBtn'', blank\<lparr>innerHTML := [Str ''<i class="fas fa-sync-alt me-2"></i>Retrain Model'']\<rparr>),
      (''fingerprintSection'', blank),
      (''normalScanBtn'', blank\<lparr>innerHTML := [Str ''<i class="fas fa-fingerprint me-2"></i>Normal Health Scan'']\<rparr>),
      (''emergencyScanBtn'', blank\<lparr>innerHTML := [Str ''<i class="fas fa-fingerprint me-2"></i>Emergency Test Scan'']\<rparr>),
      (''stopBtn'', blank\<lparr>innerHTML := [Str ''<i class="fas fa-stop me-2"></i>Stop Monitoring''],
          display := ''none''\<rparr>),
      (''healthChart'', blank),
      (''recommendationsList'',
         blank\<lparr>innerHTML := [Str ''<p class="text-muted">Loading recommendations...</p>'']\<rparr>),
      (''loadingOverlay'', blank\<lparr>className := [''loading-overlay'']\<rparr>)]\<close>

text \<open>Sample data: a reading with a given health score and a verdict of the detector.\<close>

definition reading :: "real \<Rightarrow> HealthSnapshot" where
  "reading s = \<lparr>timestamp = ''2024-05-01T10:00:00'', heart_rate = 72, blood_oxygen = 98,
                 temperature = 98.6, activity_level = 5, sleep_quality = 7, stress_level = 3,
                 health_score = s\<rparr>"

definition verdict :: "bool \<Rightarrow> string \<Rightarrow> AnomalyResult" where
  "verdict a r = \<lparr>status = ''Monitoring'', is_anomaly = a, risk_level = r\<rparr>"

text \<open>What the alert surface shows: the class list of the alert, its message and the
  \<^verbatim>\<open>display\<close> style of its section.\<close>

definition alertSlot :: "world \<Rightarrow> (string list \<times> jsstring \<times> string) option" where
  "alertSlot w =
     (case (document w ''healthAlert'', document w ''alertMessage'', document w ''alertSection'') of
        (Some alertElement, Some messageElement, Some alertSection) \<Rightarrow>
          Some (className alertElement, textContent messageElement, display alertSection)
      | _ \<Rightarrow> None)"

text \<open>The slot after \<^verbatim>\<open>showAlert(type, message)\<close> has run on a page with the alert
  elements.\<close>

definition raised :: "string \<Rightarrow> jsstring \<Rightarrow> (string list \<times> jsstring \<times> string) option" where
  "raised type msg =
     Some ([''alert'', ''alert-'' @ type, ''alert-dismissible'', ''fade'', ''show''], msg, ''block'')"

section \<open>Observations used in the properties\<close>

text \<open>The number of snapshot requests in flight.\<close>

definition inFlight :: "world \<Rightarrow> nat" where
  "inFlight w = count_list (pending w) HealthDataReq"

text \<open>The state apart from the page.\<close>

definition nonpage :: "world \<Rightarrow> world" where
  "nonpage w = w\<lparr>document := Map.empty\<rparr>"

text \<open>The state of the polling loop: the in-flight flag, the requests in flight, the
  interval timers, the stored timer handle, the next handle, the clock and the period.\<close>

definition polling ::
  "world \<Rightarrow> bool \<times> request list \<times> (nat \<times> nat \<times> nat) list \<times> nat option \<times> nat \<times> nat \<times> nat" where
  "polling w =
     (isUpdating w, pending w, intervals w, updateTimer w, nextTimerId w, now w, updateInterval w)"

text \<open>The error of a failed request: a network error, or a response whose status is not
  in 200..299 (whatever its body).\<close>

definition transportError :: "'a fetch_result \<Rightarrow> error option" where
  "transportError r =
     (case r of
        Rejected m \<Rightarrow> Some (NetworkError m)
      | Response st b \<Rightarrow> if ok st then None else Some (HttpError st))"

text \<open>What the connection indicator shows: its text and the class list of its icon.\<close>

definition connectionIndicator :: "world \<Rightarrow> (jsstring \<times> string list option) option" where
  "connectionIndicator w =
     map_option (\<lambda>e. (textContent e, previousElementSibling e)) (document w ''connectionStatus'')"

text \<open>The snapshot the backend sends while no scan is active.\<close>

definition waitingSnapshot :: Snapshot where
  "waitingSnapshot =
     \<lparr>health_data = None,
      anomaly_result = \<lparr>status = ''Waiting for fingerprint scan...'', is_anomaly = False,
                         risk_level = ''Low''\<rparr>,
      recommendations = \<lparr>recommendation_items = Some [], priority = ''Low''\<rparr>,
      metrics = \<lparr>model_metrics = None\<rparr>\<rparr>"

text \<open>The texts of the six metric tiles and of the health score.\<close>

definition tiles :: "world \<Rightarrow> jsstring option list" where
  "tiles w =
     map (\<lambda>i. map_option textContent (document w i))
       [''heartRate'', ''bloodOxygen'', ''temperature'',
        ''activityLevel'', ''sleepQuality'', ''stressLevel'']"

definition scoreText :: "world \<Rightarrow> jsstring option" where
  "scoreText w = map_option textContent (document w ''healthScore'')"

definition statusIndicator :: "world \<Rightarrow> (jsstring \<times> jsstring) option" where
  "statusIndicator w =
     (case (document w ''healthStatus'', document w ''statusIndicator'') of
        (Some statusElement, Some indicatorElement) \<Rightarrow>
          Some (textContent statusElement, innerHTML indicatorElement)
      | _ \<Rightarrow> None)"

text \<open>A snapshot with a reading and a normal verdict.\<close>

definition normalSnapshot :: "real \<Rightarrow> Snapshot" where
  "normalSnapshot s =
     \<lparr>health_data = Some (reading s),
      anomaly_result = verdict False ''Low'',
      recommendations = \<lparr>recommendation_items = Some [], priority = ''Low''\<rparr>,
      metrics = \<lparr>model_metrics = None\<rparr>\<rparr>"

text \<open>The snapshot request in flight is answered with status 200 and the body \<open>d\<close>.\<close>

definition pollAnswered :: "Snapshot \<Rightarrow> world \<Rightarrow> world" where
  "pollAnswered d w =
     snd (updateHealthData_resume (Response 200 (Json d))
            (w\<lparr>pending := remove1 HealthDataReq (pending w)\<rparr>))"

text \<open>The layout of the session controls: the \<^verbatim>\<open>display\<close> styles of the scan-selection
  section and of the stop button.\<close>

definition layout :: "world \<Rightarrow> string option \<times> string option" where
  "layout w =
     (map_option display (document w ''fingerprintSection''),
      map_option display (document w ''stopBtn''))"

text \<open>The request a control issues (with the caption it captured), and the text its
  \<^verbatim>\<open>catch\<close> block puts before the error message.\<close>

fun requestOf :: "control \<Rightarrow> jsstring \<Rightarrow> request" where
  "requestOf RetrainBtn t = RetrainReq t"
| "requestOf NormalScanBtn t = NormalScanReq t"
| "requestOf EmergencyScanBtn t = EmergencyScanReq t"
| "requestOf StopBtn t = ResetReq t"

fun failureText :: "control \<Rightarrow> string" where
  "failureText RetrainBtn = ''Failed to retrain model: ''"
| "failureText NormalScanBtn = ''Failed to start normal monitoring: ''"
| "failureText EmergencyScanBtn = ''Failed to start emergency monitoring: ''"
| "failureText StopBtn = ''Failed to stop monitoring: ''"

text \<open>Whether a control is disabled, and its caption.\<close>

definition button :: "control \<Rightarrow> world \<Rightarrow> (bool \<times> jsstring) option" where
  "button c w = map_option (\<lambda>b. (disabled b, innerHTML b)) (document w (controlId c))"















section \<open>Properties\<close>

subsection \<open>The chart buffer is a sliding window\<close>

lemma chartOf_Nil: "chartOf [] = newChart"
  by (simp add: chartOf_def newChart_def)

lemma updateChart_chartOf:
  assumes "chart w = Some (chartOf ps)" and "length ps \<le> 20"
  shows "updateChart (Some h) w =
           (Normal, w\<lparr>chart := Some (chartOf (if length ps < 20 then ps @ [h] else tl (ps @ [h])))\<rparr>)"
  using assms by (simp add: updateChart_def chartOf_def map_tl)

lemma updateChart_seq_chartOf:
  "chart w = Some (chartOf ps) \<Longrightarrow> length ps \<le> 20 \<Longrightarrow>
     updateChart_seq hs w =
       (Normal, w\<lparr>chart := Some (chartOf (drop (length (ps @ hs) - 20) (ps @ hs)))\<rparr>)"
proof (induction hs arbitrary: w ps)
  case Nil
  then show ?case by simp
next
  case (Cons h hs)
  let ?ps' = "if length ps < 20 then ps @ [h] else tl (ps @ [h])"
  let ?w' = "w\<lparr>chart := Some (chartOf ?ps')\<rparr>"
  have step: "updateChart (Some h) w = (Normal, ?w')"
    using Cons.prems by (rule updateChart_chartOf)
  have len: "length ?ps' \<le> 20"
    using Cons.prems(2) by simp
  have "updateChart_seq hs ?w' =
          (Normal, ?w'\<lparr>chart := Some (chartOf (drop (length (?ps' @ hs) - 20) (?ps' @ hs)))\<rparr>)"
    by (rule Cons.IH) (simp, rule len)
  moreover have "drop (length (?ps' @ hs) - 20) (?ps' @ hs)
                   = drop (length (ps @ h # hs) - 20) (ps @ h # hs)"
  proof (cases "length ps < 20")
    case True
    then show ?thesis by simp
  next
    case False
    with Cons.prems(2) have l: "length ps = 20" by simp
    then obtain p ps0 where ps: "ps = p # ps0" by (cases ps) auto
    with l show ?thesis by (simp add: Suc_diff_le)
  qed
  ultimately show ?case using step by simp
qed

lemma recent_snoc:
  "drop (length (hs @ [h]) - 20) (hs @ [h]) =
     (if length hs < 20 then drop (length hs - 20) hs @ [h]
      else tl (drop (length hs - 20) hs) @ [h])"
proof (cases "length hs < 20")
  case True
  then show ?thesis by simp
next
  case False
  then have "drop (length hs - 20) hs \<noteq> []" by simp
  moreover have "Suc (length hs) - 20 = Suc (length hs - 20)" using False by simp
  ultimately show ?thesis using False by (simp add: drop_Suc tl_drop)
qed

text \<open>
  C1. Starting from the empty chart of \<^verbatim>\<open>initChart\<close>, after the chart updates of any
  sequence \<open>hs\<close> of readings no update has thrown, and the labels and each of the four
  datasets hold exactly the most recent \<open>min (length hs) 20\<close> readings in arrival order.
  One more reading \<open>h\<close> is added at the end, and when 20 points are already held exactly
  the oldest one is removed from the labels and from each dataset.
\<close>

theorem chart_sliding_window:
  "let recent = drop (length hs - 20) hs;
       (outcome, w') = updateChart_seq hs (w\<lparr>chart := Some newChart\<rparr>);
       (outcome1, w1) = updateChart_seq (hs @ [h]) (w\<lparr>chart := Some newChart\<rparr>)
   in outcome = Normal \<and> outcome1 = Normal \<and>
      map_option labels (chart w') = Some (map (\<lambda>p. [LocaleTime (timestamp p)]) recent) \<and>
      map_option (map data \<circ> datasets) (chart w') =
        Some [map heart_rate recent, map blood_oxygen recent,
              map temperature recent, map health_score recent] \<and>
      length recent = min (length hs) 20 \<and>
      map_option labels (chart w1) =
        Some ((if length hs < 20 then map (\<lambda>p. [LocaleTime (timestamp p)]) recent
               else tl (map (\<lambda>p. [LocaleTime (timestamp p)]) recent)) @ [[LocaleTime (timestamp h)]]) \<and>
      map_option (map data \<circ> datasets) (chart w1) =
        Some (map (\<lambda>f. (if length hs < 20 then map f recent else tl (map f recent)) @ [f h])
                [heart_rate, blood_oxygen, temperature, health_score])"
proof -
  let ?w0 = "w\<lparr>chart := Some newChart\<rparr>"
  have c0: "chart ?w0 = Some (chartOf [])" by (simp add: chartOf_Nil)
  have run: "updateChart_seq xs ?w0 =
               (Normal, ?w0\<lparr>chart := Some (chartOf (drop (length xs - 20) xs))\<rparr>)" for xs
    using updateChart_seq_chartOf [OF c0, of xs] by simp
  show ?thesis
    unfolding run Let_def recent_snoc
    by (simp add: chartOf_def map_tl)
qed

text \<open>Twenty-one readings, then a twenty-second, on the page of the repository.\<close>

theorem chart_sliding_window_witness:
  "(let hs = map (\<lambda>n. reading (real n)) [1..<22];
        w0 = (HealthDashboard_new index_html)\<lparr>chart := Some newChart\<rparr>;
        w' = snd (updateChart_seq hs w0);
        w1 = snd (updateChart_seq (hs @ [reading 22]) w0)
    in length hs = 21 \<and>
       map_option (length \<circ> labels) (chart w') = Some 20 \<and>
       map_option (map data \<circ> datasets) (chart w') =
         Some (map (\<lambda>f. map f (tl hs)) [heart_rate, blood_oxygen, temperature, health_score]) \<and>
       map_option (map data \<circ> datasets) (chart w1) =
         Some (map (\<lambda>f. map f (tl (tl hs)) @ [f (reading 22)])
                 [heart_rate, blood_oxygen, temperature, health_score]))"
proof -
  define hs where "hs = map (\<lambda>n. reading (real n)) [1..<22]"
  have len: "length hs = 21" by (simp add: hs_def)
  have d: "drop (length hs - 20) hs = tl hs" by (simp add: len drop_Suc)
  show ?thesis
    using chart_sliding_window [of hs "HealthDashboard_new index_html" "reading 22"]
    unfolding hs_def [symmetric] Let_def d
    by (auto simp: len map_tl split: prod.splits)
qed

subsection \<open>What each operation leaves alone\<close>

lemma showAlert_document_other:
  "i \<noteq> ''alertSection'' \<Longrightarrow> i \<noteq> ''healthAlert'' \<Longrightarrow> i \<noteq> ''alertMessage'' \<Longrightarrow>
   document (showAlert ty msg w) i = document w i"
  by (simp add: showAlert_def setTimeout_def setElement_def split: option.splits)

lemma document_HealthDashboard_new:
  "i \<noteq> ''connectionStatus'' \<Longrightarrow> i \<noteq> ''loadingOverlay'' \<Longrightarrow>
   document (HealthDashboard_new d) i = d i"
  by (simp add: HealthDashboard_new_def init_def initChart_def startDataUpdates_def
        setInterval_def updateConnectionStatus_def updateHealthData_def showLoading_def
        fetch_def setElement_def Let_def split: option.splits prod.splits)

lemma score_keeps:
  "emergencyMode (updateHealthStatus_score healthData w) = emergencyMode w"
  "timeouts (updateHealthStatus_score healthData w) = timeouts w"
  "now (updateHealthStatus_score healthData w) = now w"
  "alertSlot (updateHealthStatus_score healthData w) = alertSlot w"
  "document (updateHealthStatus_score healthData w) ''healthStatus'' = document w ''healthStatus''"
  by (simp_all add: updateHealthStatus_score_def setElement_def alertSlot_def Let_def
        split: option.splits)

lemma alertSlot_setElement:
  "i \<noteq> ''alertSection'' \<Longrightarrow> i \<noteq> ''healthAlert'' \<Longrightarrow> i \<noteq> ''alertMessage'' \<Longrightarrow>
   alertSlot (setElement i e w) = alertSlot w"
  by (simp add: alertSlot_def setElement_def)

lemma alertSlot_emergencyMode: "alertSlot (w\<lparr>emergencyMode := b\<rparr>) = alertSlot w"
  by (simp add: alertSlot_def)

lemma setElement_keeps:
  "timeouts (setElement i e w) = timeouts w"
  "now (setElement i e w) = now w"
  "emergencyMode (setElement i e w) = emergencyMode w"
  by (simp_all add: setElement_def)

lemma showAlert_raised:
  "alertSlot w \<noteq> None \<Longrightarrow> alertSlot (showAlert ty msg w) = raised ty msg"
  by (simp add: showAlert_def alertSlot_def raised_def setElement_def setTimeout_def
        split: option.splits)

lemma showAlert_timeouts:
  "alertSlot w \<noteq> None \<Longrightarrow> timeouts (showAlert ty msg w) = timeouts w @ [(now w + 5000, HideAlert)]"
  by (simp add: showAlert_def alertSlot_def setElement_def setTimeout_def
        split: option.splits)

lemma showAlert_keeps:
  "emergencyMode (showAlert ty msg w) = emergencyMode w"
  "now (showAlert ty msg w) = now w"
  "isUpdating (showAlert ty msg w) = isUpdating w"
  "pending (showAlert ty msg w) = pending w"
  "intervals (showAlert ty msg w) = intervals w"
  "updateTimer (showAlert ty msg w) = updateTimer w"
  "chart (showAlert ty msg w) = chart w"
  by (simp_all add: showAlert_def setElement_def setTimeout_def split: option.splits)

text \<open>Rendering never touches the state of the polling loop.\<close>

lemma polling_basic:
  "polling (setElement i e w) = polling w"
  "polling (setTimeout cb delay w) = polling w"
  "polling (setText i v w) = polling w"
  "polling (setDisplay i s w) = polling w"
  "polling (enableButton i t w) = polling w"
  "polling (disableButton i t w) = polling w"
  "polling (showAlert ty msg w) = polling w"
  "polling (showLoading b w) = polling w"
  "polling (snd (updateConnectionStatus b w)) = polling w"
  "polling (updateLastUpdateTime w) = polling w"
  "polling (updateModelMetrics m w) = polling w"
  "polling (updateRecommendations recs w) = polling w"
  "polling (updateHealthStatus_score healthData w) = polling w"
  by (simp_all add: polling_def setElement_def setTimeout_def setText_def setDisplay_def
        enableButton_def disableButton_def showAlert_def showLoading_def
        updateConnectionStatus_def updateLastUpdateTime_def updateModelMetrics_def
        updateRecommendations_def updateHealthStatus_score_def Let_def
        split: option.splits)

lemma polling_field_updates:
  "polling (w\<lparr>emergencyMode := b\<rparr>) = polling w"
  "polling (w\<lparr>console := c\<rparr>) = polling w"
  "polling (w\<lparr>lastUpdateTime := t\<rparr>) = polling w"
  "polling (w\<lparr>chart := ch\<rparr>) = polling w"
  "polling (w\<lparr>hidden := h\<rparr>) = polling w"
  by (simp_all add: polling_def)

lemma polling_updateHealthStatus: "polling (updateHealthStatus r healthData w) = polling w"
  by (simp add: updateHealthStatus_def Let_def polling_basic polling_field_updates split: option.splits)

lemma polling_fold:
  assumes "\<And>x w. polling (f x w) = polling w"
  shows "polling (fold f xs w) = polling w"
  using assms by (induction xs arbitrary: w) simp_all

lemma polling_updateMetrics: "polling (updateMetrics healthData w) = polling w"
proof (cases healthData)
  case None
  then show ?thesis
    unfolding updateMetrics_def
    by (simp only: option.case) (rule polling_fold, simp add: polling_basic split: option.splits)
next
  case (Some h)
  then show ?thesis
    unfolding updateMetrics_def
    by (simp only: option.case)
       (rule polling_fold, simp add: polling_basic split: option.splits prod.splits)
qed

lemma polling_updateChart: "polling (snd (updateChart healthData w)) = polling w"
  by (simp add: updateChart_def polling_field_updates Let_def split: option.splits prod.splits completion.splits)

lemma polling_updateHealthData_try: "polling (snd (updateHealthData_try r w)) = polling w"
proof -
  have chart: "polling w' = polling w0" if "updateChart h w0 = (c, w')" for h w0 c w'
    using polling_updateChart [of h w0] that by simp
  show ?thesis
    by (auto simp: updateHealthData_try_def polling_basic polling_field_updates
          polling_updateMetrics polling_updateHealthStatus
          split: fetch_result.splits body.splits prod.splits completion.splits
          dest!: chart)
qed

lemma polling_updateHealthData_catch: "polling (snd (updateHealthData_catch e w)) = polling w"
  by (simp add: updateHealthData_catch_def polling_basic polling_field_updates)

lemma polling_isUpdating: "polling (w\<lparr>isUpdating := b\<rparr>) = (b, snd (polling w))"
  by (simp add: polling_def)

lemma polling_updateHealthData_resume:
  "polling (snd (updateHealthData_resume r w)) = (False, snd (polling w))"
proof -
  obtain c w1 where t: "updateHealthData_try r w = (c, w1)" by (cases "updateHealthData_try r w")
  then have p1: "polling w1 = polling w"
    using polling_updateHealthData_try [of r w] by simp
  show ?thesis
  proof (cases c)
    case Normal
    with t p1 show ?thesis
      by (simp add: updateHealthData_resume_def polling_isUpdating polling_basic)
  next
    case (Throw e)
    obtain c' w2 where k: "updateHealthData_catch e w1 = (c', w2)"
      by (cases "updateHealthData_catch e w1")
    then have "polling w2 = polling w1"
      using polling_updateHealthData_catch [of e w1] by simp
    with t p1 Throw k show ?thesis
      by (simp add: updateHealthData_resume_def polling_isUpdating polling_basic)
  qed
qed

lemma polling_resume:
  "polling (retrainModel_resume t r w) = polling w"
  "polling (triggerNormalScan_resume t r w) = polling w"
  "polling (triggerEmergencyScan_resume t r w) = polling w"
  "polling (stopMonitoring_resume t r w) = polling w"
  by (simp_all add: retrainModel_resume_def triggerNormalScan_resume_def
        triggerEmergencyScan_resume_def stopMonitoring_resume_def polling_basic
        polling_field_updates split: sum.splits)

lemma polling_fields:
  "isUpdating w = fst (polling w)"
  "pending w = fst (snd (polling w))"
  "intervals w = fst (snd (snd (polling w)))"
  "updateTimer w = fst (snd (snd (snd (polling w))))"
  by (simp_all add: polling_def)

text \<open>Most operations change the page only, and each only its own elements.\<close>

lemma nonpage_basic:
  "nonpage (setElement i e w) = nonpage w"
  "nonpage (setText i v w) = nonpage w"
  "nonpage (setDisplay i s w) = nonpage w"
  "nonpage (enableButton i t w) = nonpage w"
  "nonpage (disableButton i t w) = nonpage w"
  "nonpage (showLoading b w) = nonpage w"
  "nonpage (snd (updateConnectionStatus b w)) = nonpage w"
  "nonpage (updateLastUpdateTime w) = nonpage w"
  "nonpage (updateModelMetrics m w) = nonpage w"
  "nonpage (updateRecommendations recs w) = nonpage w"
  "nonpage (updateHealthStatus_score healthData w) = nonpage w"
  by (simp_all add: nonpage_def setElement_def setText_def setDisplay_def
        enableButton_def disableButton_def showLoading_def
        updateConnectionStatus_def updateLastUpdateTime_def updateModelMetrics_def
        updateRecommendations_def updateHealthStatus_score_def Let_def
        split: option.splits)

lemma nonpage_document: "nonpage (w\<lparr>document := d\<rparr>) = nonpage w"
  by (simp add: nonpage_def)

lemma nonpage_fields:
  assumes "nonpage a = nonpage b"
  shows "chart a = chart b" "console a = console b" "timeouts a = timeouts b"
    "lastUpdateTime a = lastUpdateTime b" "now a = now b" "emergencyMode a = emergencyMode b"
    "pending a = pending b" "isUpdating a = isUpdating b" "intervals a = intervals b"
    "updateTimer a = updateTimer b"
proof -
  have "f a = f b" if "\<And>w. f (nonpage w) = f w" for f :: "world \<Rightarrow> 'b"
    using that [of a] that [of b] assms by simp
  note k = this
  show "chart a = chart b" by (rule k) (simp add: nonpage_def)
  show "console a = console b" by (rule k) (simp add: nonpage_def)
  show "timeouts a = timeouts b" by (rule k) (simp add: nonpage_def)
  show "lastUpdateTime a = lastUpdateTime b" by (rule k) (simp add: nonpage_def)
  show "now a = now b" by (rule k) (simp add: nonpage_def)
  show "emergencyMode a = emergencyMode b" by (rule k) (simp add: nonpage_def)
  show "pending a = pending b" by (rule k) (simp add: nonpage_def)
  show "isUpdating a = isUpdating b" by (rule k) (simp add: nonpage_def)
  show "intervals a = intervals b" by (rule k) (simp add: nonpage_def)
  show "updateTimer a = updateTimer b" by (rule k) (simp add: nonpage_def)
qed

lemma document_setText:
  "document (setText i v w) j =
     (if j = i then map_option (\<lambda>e. e\<lparr>textContent := v\<rparr>) (document w j) else document w j)"
  by (simp add: setText_def setElement_def split: option.splits)

lemma document_fold_setText:
  "document (fold (\<lambda>i. setText i v) ids w) j =
     (if j \<in> set ids then map_option (\<lambda>e. e\<lparr>textContent := v\<rparr>) (document w j) else document w j)"
proof (induction ids arbitrary: w)
  case Nil
  then show ?case by simp
next
  case (Cons i ids)
  show ?case
    by (simp add: Cons.IH document_setText option.map_comp comp_def)
qed

lemma nonpage_fold_setText: "nonpage (fold (\<lambda>i. setText i v) ids w) = nonpage w"
  by (induction ids arbitrary: w) (simp_all add: nonpage_basic)

lemma document_updateModelMetrics:
  "j \<noteq> ''modelAccuracy'' \<Longrightarrow> j \<noteq> ''trainingSamples'' \<Longrightarrow> j \<noteq> ''anomaliesDetected'' \<Longrightarrow>
   document (updateModelMetrics m w) j = document w j"
  by (simp add: updateModelMetrics_def document_setText split: option.splits)

lemma document_updateRecommendations:
  "j \<noteq> ''recommendationsList'' \<Longrightarrow> document (updateRecommendations recs w) j = document w j"
  by (simp add: updateRecommendations_def setElement_def Let_def split: option.splits)

lemma document_updateHealthStatus_score:
  "j \<noteq> ''healthScore'' \<Longrightarrow> j \<noteq> ''healthScoreBar'' \<Longrightarrow>
   document (updateHealthStatus_score healthData w) j = document w j"
  by (simp add: updateHealthStatus_score_def setElement_def Let_def split: option.splits)

lemma updateHealthStatus_waiting:
  assumes "status r = ''Waiting for fingerprint scan...''"
  shows "nonpage (updateHealthStatus r None w) = nonpage w"
    and "j \<noteq> ''healthStatus'' \<Longrightarrow> j \<noteq> ''statusIndicator'' \<Longrightarrow> j \<noteq> ''healthScore'' \<Longrightarrow>
         j \<noteq> ''healthScoreBar'' \<Longrightarrow> document (updateHealthStatus r None w) j = document w j"
    and "statusIndicator w \<noteq> None \<Longrightarrow>
         document (updateHealthStatus r None w) ''healthScore'' = document w ''healthScore''"
  using assms
  by (simp_all add: updateHealthStatus_def nonpage_basic nonpage_document
        document_updateHealthStatus_score setElement_def statusIndicator_def split: option.splits)

lemma document_showLoading:
  "j \<noteq> ''loadingOverlay'' \<Longrightarrow> document (showLoading b w) j = document w j"
  by (simp add: showLoading_def setElement_def split: option.splits)


lemma document_updateLastUpdateTime:
  "j \<noteq> ''lastUpdate'' \<Longrightarrow> document (updateLastUpdateTime w) j = document w j"
  by (simp add: updateLastUpdateTime_def setElement_def split: option.splits)

lemma document_updateChart: "document (snd (updateChart healthData w)) = document w"
  by (simp add: updateChart_def Let_def split: option.splits prod.splits completion.splits)

lemma document_field_updates:
  "document (w\<lparr>isUpdating := b\<rparr>) = document w"
  "document (w\<lparr>console := c\<rparr>) = document w"
  "document (w\<lparr>pending := p\<rparr>) = document w"
  "document (w\<lparr>lastUpdateTime := t\<rparr>) = document w"
  "document (w\<lparr>emergencyMode := m\<rparr>) = document w"
  "document (w\<lparr>now := n\<rparr>) = document w"
  by simp_all

text \<open>The tiles of a reading touch the six tiles only.\<close>

lemma document_updateMetrics:
  assumes "j \<notin> {''heartRate'', ''bloodOxygen'', ''temperature'',
                ''activityLevel'', ''sleepQuality'', ''stressLevel''}"
  shows "document (updateMetrics healthData w) j = document w j"
proof (cases healthData)
  case None
  with assms show ?thesis by (simp add: updateMetrics_def document_setText)
next
  case (Some h)
  have step: "document (fold (\<lambda>(i, v) w. case document w i of
                         Some element \<Rightarrow>
                           setTimeout (RemoveUpdated i) 1000
                             (setElement i
                               (element\<lparr>textContent := v,
                                  className := classList_add ''updated'' (className element)\<rparr>) w)
                       | None \<Rightarrow> w) xs w) j = document w j"
    if "j \<notin> fst ` set xs" for xs w
    using that
    by (induction xs arbitrary: w)
       (auto simp: setTimeout_def setElement_def split: option.splits)
  show ?thesis
    unfolding updateMetrics_def Some option.case
    by (rule step) (use assms in simp)
qed

lemma updateHealthStatus_normal:
  assumes "status r \<noteq> ''Waiting for fingerprint scan...''" and "\<not> is_anomaly r"
  shows "j \<noteq> ''healthStatus'' \<Longrightarrow> j \<noteq> ''statusIndicator'' \<Longrightarrow> j \<noteq> ''healthScore'' \<Longrightarrow>
         j \<noteq> ''healthScoreBar'' \<Longrightarrow> document (updateHealthStatus r healthData w) j = document w j"
    and "timeouts (updateHealthStatus r healthData w) = timeouts w"
    and "chart (updateHealthStatus r healthData w) = chart w"
    and "document w ''healthScore'' \<noteq> None \<Longrightarrow> document w ''healthScoreBar'' \<noteq> None \<Longrightarrow>
         scoreText (updateHealthStatus r (Some h) w) = Some [Num (health_score h)]"
    and "statusIndicator w \<noteq> None \<Longrightarrow> statusIndicator (updateHealthStatus r healthData w) \<noteq> None"
    and "console (updateHealthStatus r healthData w) = console w"
  using assms
  by (auto simp: updateHealthStatus_def document_updateHealthStatus_score score_keeps
        setElement_def setElement_keeps statusIndicator_def scoreText_def Let_def
        updateHealthStatus_score_def nonpage_fields(1) [OF nonpage_basic(11)]
        nonpage_fields(2) [OF nonpage_basic(11)]
        split: option.splits)

text \<open>The page of the repository after the constructor has run.\<close>

lemma alertSlot_page:
  "alertSlot (HealthDashboard_new index_html) =
     Some ([''alert'', ''alert-dismissible'', ''fade'', ''show''], [], ''none'')"
  by (simp add: alertSlot_def document_HealthDashboard_new) (simp add: index_html_def blank_def)

lemma status_elements_page:
  "document (HealthDashboard_new index_html) ''healthStatus'' =
     Some (blank\<lparr>textContent := [Str ''Normal''], className := [''mb-0'']\<rparr>)"
  "document (HealthDashboard_new index_html) ''statusIndicator'' = index_html ''statusIndicator''"
  "index_html ''statusIndicator'' \<noteq> None"
  by (simp_all add: document_HealthDashboard_new) (simp_all add: index_html_def)

lemma page_counters:
  "timeouts (HealthDashboard_new index_html) = []"
  "now (HealthDashboard_new index_html) = 0"
  "emergencyMode (HealthDashboard_new index_html) = False"
  by (simp_all add: HealthDashboard_new_def init_def initChart_def startDataUpdates_def
        setInterval_def updateConnectionStatus_def updateHealthData_def showLoading_def
        fetch_def setElement_def Let_def index_html_def blank_def split: prod.splits)

lemma page_polling:
  "polling (HealthDashboard_new index_html) =
     (True, [HealthDataReq], [(1, 5000, 5000)], Some 1, 2, 0, 5000)"
  by (simp add: polling_def HealthDashboard_new_def init_def initChart_def startDataUpdates_def
        setInterval_def updateConnectionStatus_def updateHealthData_def showLoading_def
        fetch_def setElement_def Let_def index_html_def blank_def split: prod.splits)

lemma page_polling_fields:
  "isUpdating (HealthDashboard_new index_html)"
  "pending (HealthDashboard_new index_html) = [HealthDataReq]"
  "intervals (HealthDashboard_new index_html) = [(1, 5000, 5000)]"
  "updateTimer (HealthDashboard_new index_html) = Some 1"
  "updateInterval (HealthDashboard_new index_html) = 5000"
  using page_polling unfolding polling_def by simp_all

lemma page_connectionStatus:
  "document (HealthDashboard_new index_html) ''connectionStatus'' =
     Some (blank\<lparr>textContent := [Str ''Connected''],
             previousElementSibling := Some [''fas'', ''fa-wifi'', ''text-success'', ''me-1'']\<rparr>)"
  by (simp add: HealthDashboard_new_def init_def initChart_def startDataUpdates_def
        setInterval_def updateConnectionStatus_def updateHealthData_def showLoading_def
        fetch_def setElement_def Let_def index_html_def blank_def split: prod.splits)

lemma page_chart: "chart (HealthDashboard_new index_html) = Some newChart"
  by (simp add: HealthDashboard_new_def init_def initChart_def startDataUpdates_def
        setInterval_def updateConnectionStatus_def updateHealthData_def showLoading_def
        fetch_def setElement_def Let_def index_html_def blank_def split: prod.splits)

lemma page_console: "console (HealthDashboard_new index_html) = []"
  by (simp add: HealthDashboard_new_def init_def initChart_def startDataUpdates_def
        setInterval_def updateConnectionStatus_def updateHealthData_def showLoading_def
        fetch_def setElement_def Let_def index_html_def blank_def split: prod.splits)

lemma page_observations:
  "statusIndicator (HealthDashboard_new index_html) \<noteq> None"
  "document (HealthDashboard_new index_html) ''healthScore'' \<noteq> None"
  "document (HealthDashboard_new index_html) ''healthScoreBar'' \<noteq> None"
  "tiles (HealthDashboard_new index_html) =
     [Some [Str ''--''], Some [Str ''--''], Some [Str ''--''],
      Some [Str ''--''], Some [Str ''--''], Some [Str ''--'']]"
  by (simp_all add: statusIndicator_def tiles_def document_HealthDashboard_new)
     (simp_all add: index_html_def tile_def blank_def)

lemma page_layout: "layout (HealthDashboard_new index_html) = (Some [], Some ''none'')"
  by (simp add: layout_def document_HealthDashboard_new) (simp add: index_html_def blank_def)

lemma page_normalScanBtn:
  \<open>document (HealthDashboard_new index_html) ''normalScanBtn'' =
     Some (blank\<lparr>innerHTML := [Str ''<i class="fas fa-fingerprint me-2"></i>Normal Health Scan'']\<rparr>)\<close>
  by (simp add: document_HealthDashboard_new) (simp add: index_html_def)

subsection \<open>Health score bands\<close>

text \<open>
  C6. After \<^verbatim>\<open>updateHealthStatus\<close> on a reading (outside the waiting state, on a page with
  the score elements) the class of the progress bar is decided by the score alone, on
  half-open intervals: a score in [80, 100] gives \<^verbatim>\<open>bg-success\<close>, one in [60, 80) gives
  \<^verbatim>\<open>bg-warning\<close>, one in [0, 60) gives \<^verbatim>\<open>bg-danger\<close>.
\<close>

theorem health_score_banding:
  assumes "document w ''healthScore'' = Some scoreElement"
    and "document w ''healthScoreBar'' = Some scoreBarElement"
    and "status anomalyResult \<noteq> ''Waiting for fingerprint scan...''"
  shows "let s = health_score h;
             band = map_option className
                      (document (updateHealthStatus anomalyResult (Some h) w) ''healthScoreBar'')
         in (80 \<le> s \<and> s \<le> 100 \<longrightarrow> band = Some [''progress-bar'', ''bg-success'']) \<and>
            (60 \<le> s \<and> s < 80 \<longrightarrow> band = Some [''progress-bar'', ''bg-warning'']) \<and>
            (0 \<le> s \<and> s < 60 \<longrightarrow> band = Some [''progress-bar'', ''bg-danger''])"
  using assms
  by (simp add: updateHealthStatus_def updateHealthStatus_score_def Let_def setElement_def
        showAlert_document_other classList_add_def split: option.splits)

text \<open>The boundary scores 80, 79, 79.9, 60 and 59 on the page of the repository.\<close>

theorem health_score_banding_witness:
  "(let band = (\<lambda>s. map_option className
        (document (updateHealthStatus (verdict False ''Low'') (Some (reading s))
           (HealthDashboard_new index_html)) ''healthScoreBar''))
    in band 80 = Some [''progress-bar'', ''bg-success''] \<and>
       band 79 = Some [''progress-bar'', ''bg-warning''] \<and>
       band 79.9 = Some [''progress-bar'', ''bg-warning''] \<and>
       band 60 = Some [''progress-bar'', ''bg-warning''] \<and>
       band 59 = Some [''progress-bar'', ''bg-danger''])"
proof -
  let ?w = "HealthDashboard_new index_html"
  have e1: "document ?w ''healthScore'' = index_html ''healthScore''"
    by (simp add: document_HealthDashboard_new)
  have e2: "document ?w ''healthScoreBar'' = index_html ''healthScoreBar''"
    by (simp add: document_HealthDashboard_new)
  have s1: "index_html ''healthScore'' = Some (blank\<lparr>textContent := [Str ''--''], className := [''mb-0'']\<rparr>)"
    by (simp add: index_html_def)
  have s2: "index_html ''healthScoreBar'' = Some (blank\<lparr>className := [''progress-bar''], width := [Str ''0%'']\<rparr>)"
    by (simp add: index_html_def)
  have st: "status (verdict False ''Low'') \<noteq> ''Waiting for fingerprint scan...''"
    by (simp add: verdict_def)
  note b = health_score_banding [OF e1 [unfolded s1] e2 [unfolded s2] st]
  show ?thesis
    using b [of "reading 80"] b [of "reading 79"] b [of "reading 79.9"] b [of "reading 60"] b [of "reading 59"]
    by (simp add: reading_def Let_def)
qed

subsection \<open>Anomaly verdicts\<close>

text \<open>
  C7. Outside the waiting state, on a page with the status and alert elements,
  \<^verbatim>\<open>updateHealthStatus\<close> raises a danger alert and sets \<^verbatim>\<open>emergencyMode\<close> for an anomaly of
  High risk, raises a warning alert for an anomaly of Medium risk (each alert with its
  own hide timer 5000 ms ahead), and clears \<^verbatim>\<open>emergencyMode\<close> when there is no anomaly.
\<close>

theorem anomaly_alerts:
  assumes "document w ''healthStatus'' = Some statusElement"
    and "document w ''statusIndicator'' = Some indicatorElement"
    and "alertSlot w \<noteq> None"
    and "status r \<noteq> ''Waiting for fingerprint scan...''"
  shows "let w' = updateHealthStatus r healthData w
         in (is_anomaly r \<and> risk_level r = ''High'' \<longrightarrow>
               alertSlot w' = raised ''danger''
                 [Str ''High risk health anomaly detected! Please monitor your symptoms closely.''] \<and>
               timeouts w' = timeouts w @ [(now w + 5000, HideAlert)] \<and>
               emergencyMode w') \<and>
            (is_anomaly r \<and> risk_level r = ''Medium'' \<longrightarrow>
               alertSlot w' = raised ''warning''
                 [Str ''Moderate health anomaly detected. Keep an eye on your metrics.''] \<and>
               timeouts w' = timeouts w @ [(now w + 5000, HideAlert)]) \<and>
            (\<not> is_anomaly r \<longrightarrow> \<not> emergencyMode w')"
  using assms
  by (simp add: updateHealthStatus_def Let_def score_keeps showAlert_raised showAlert_timeouts
        showAlert_keeps alertSlot_setElement alertSlot_emergencyMode setElement_keeps)

text \<open>On the page of the repository: a High and a Medium anomaly, and a normal verdict
  after the High one.\<close>

theorem anomaly_alerts_witness:
  "(let w = HealthDashboard_new index_html;
       high = updateHealthStatus (verdict True ''High'') (Some (reading 41)) w;
       medium = updateHealthStatus (verdict True ''Medium'') (Some (reading 65)) w;
       normal = updateHealthStatus (verdict False ''Low'') (Some (reading 90)) (high)
   in alertSlot w = Some ([''alert'', ''alert-dismissible'', ''fade'', ''show''], [], ''none'') \<and>
      alertSlot high = raised ''danger''
        [Str ''High risk health anomaly detected! Please monitor your symptoms closely.''] \<and>
      timeouts high = [(5000, HideAlert)] \<and> emergencyMode high \<and>
      alertSlot medium = raised ''warning''
        [Str ''Moderate health anomaly detected. Keep an eye on your metrics.''] \<and>
      timeouts medium = [(5000, HideAlert)] \<and>
      \<not> emergencyMode normal)"
proof -
  let ?w = "HealthDashboard_new index_html"
  let ?high = "updateHealthStatus (verdict True ''High'') (Some (reading 41)) ?w"
  obtain ind where ind: "document ?w ''statusIndicator'' = Some ind"
    using status_elements_page(2,3) by auto
  have slot: "alertSlot ?w \<noteq> None" by (simp add: alertSlot_page)
  have st: "status (verdict a r) \<noteq> ''Waiting for fingerprint scan...''" for a r
    by (simp add: verdict_def)
  note a = anomaly_alerts [OF status_elements_page(1) ind slot st]
  have hs: "document ?high ''healthStatus'' \<noteq> None" "document ?high ''statusIndicator'' \<noteq> None"
    "alertSlot ?high \<noteq> None"
    using a [of True "''High''" "Some (reading 41)"]
    by (simp_all add: updateHealthStatus_def status_elements_page(1) ind st Let_def score_keeps
          setElement_def showAlert_document_other updateHealthStatus_score_def verdict_def raised_def
          split: option.splits)
  then obtain e1 e2 where e: "document ?high ''healthStatus'' = Some e1"
      "document ?high ''statusIndicator'' = Some e2" by auto
  note b = anomaly_alerts [OF e hs(3) st]
  show ?thesis
    using a [of True "''High''" "Some (reading 41)"] a [of True "''Medium''" "Some (reading 65)"]
      b [of False "''Low''" "Some (reading 90)"]
    by (simp add: Let_def verdict_def alertSlot_page page_counters)
qed

text \<open>
  C10. Outside the waiting state, an anomaly whose risk level is neither High nor Medium
  (so also Low) sets \<^verbatim>\<open>emergencyMode\<close> and shows the anomaly text with its risk level,
  and raises no alert: the alert slot and the pending timers are as before.
\<close>

theorem low_risk_no_alert:
  assumes "document w ''healthStatus'' = Some statusElement"
    and "document w ''statusIndicator'' = Some indicatorElement"
    and "status r \<noteq> ''Waiting for fingerprint scan...''"
    and "is_anomaly r"
    and "risk_level r \<noteq> ''High''" and "risk_level r \<noteq> ''Medium''"
  shows "let w' = updateHealthStatus r healthData w
         in emergencyMode w' \<and>
            map_option textContent (document w' ''healthStatus'') =
              Some [Str (''Anomaly Detected ('' @ risk_level r @ '' Risk)'')] \<and>
            alertSlot w' = alertSlot w \<and> timeouts w' = timeouts w"
  using assms
  by (simp add: updateHealthStatus_def Let_def score_keeps alertSlot_setElement
        alertSlot_emergencyMode setElement_keeps) (simp add: setElement_def)

text \<open>A Low anomaly on the page of the repository.\<close>

theorem low_risk_no_alert_witness:
  "(let w = HealthDashboard_new index_html;
        w' = updateHealthStatus (verdict True ''Low'') (Some (reading 70)) w
    in emergencyMode w' \<and>
       map_option textContent (document w' ''healthStatus'') =
         Some [Str ''Anomaly Detected (Low Risk)''] \<and>
       alertSlot w' = Some ([''alert'', ''alert-dismissible'', ''fade'', ''show''], [], ''none'') \<and>
       timeouts w' = [])"
proof -
  let ?w = "HealthDashboard_new index_html"
  obtain ind where ind: "document ?w ''statusIndicator'' = Some ind"
    using status_elements_page(2,3) by auto
  show ?thesis
    using low_risk_no_alert [OF status_elements_page(1) ind, of "verdict True ''Low''" "Some (reading 70)"]
    by (simp add: Let_def verdict_def alertSlot_page page_counters)
qed

subsection \<open>One snapshot request at a time\<close>

lemma count_list_remove1: "a \<in> set xs \<Longrightarrow> count_list (remove1 a xs) a = count_list xs a - 1"
  by (induction xs) auto

lemma count_list_drop_nth:
  assumes "k < length xs" and "xs ! k \<noteq> a"
  shows "count_list (take k xs @ drop (Suc k) xs) a = count_list xs a"
proof -
  have "xs = take k xs @ xs ! k # drop (Suc k) xs"
    using assms(1) by (rule id_take_nth_drop)
  then have "count_list xs a = count_list (take k xs @ xs ! k # drop (Suc k) xs) a"
    by simp
  also have "\<dots> = count_list (take k xs @ drop (Suc k) xs) a"
    using assms(2) by simp
  finally show ?thesis by simp
qed

lemma updateHealthData_inFlight:
  "inFlight w = (if isUpdating w then 1 else 0) \<Longrightarrow>
   inFlight (updateHealthData w) = 1 \<and> isUpdating (updateHealthData w)"
  using polling_basic(8) [of True "w\<lparr>isUpdating := True\<rparr>"]
  by (auto simp: updateHealthData_def fetch_def inFlight_def polling_def)

lemma click_inFlight:
  "inFlight (click c w) = inFlight w \<and> isUpdating (click c w) = isUpdating w"
proof -
  have "pending (disableButton i t w) = pending w \<and> isUpdating (disableButton i t w) = isUpdating w" for i t
    using polling_basic(6) [of i t w] by (simp add: polling_def)
  then show ?thesis
    by (cases c)
       (simp_all add: retrainModel_def triggerNormalScan_def triggerEmergencyScan_def
          stopMonitoring_def fetch_def inFlight_def split: option.splits)
qed

lemma startDataUpdates_pending:
  "pending (snd (startDataUpdates w)) = pending w \<and> isUpdating (snd (startDataUpdates w)) = isUpdating w"
proof -
  have "pending (snd (updateConnectionStatus b w0)) = pending w0 \<and>
        isUpdating (snd (updateConnectionStatus b w0)) = isUpdating w0" for b w0
    using polling_basic(9) [of b w0] by (simp add: polling_def)
  then show ?thesis
    by (simp add: startDataUpdates_def setInterval_def clearInterval_def Let_def
          split: option.splits prod.splits)
qed

lemma stopDataUpdates_pending:
  "pending (snd (stopDataUpdates w)) = pending w \<and> isUpdating (snd (stopDataUpdates w)) = isUpdating w"
proof -
  have "pending (snd (updateConnectionStatus b w0)) = pending w0 \<and>
        isUpdating (snd (updateConnectionStatus b w0)) = isUpdating w0" for b w0
    using polling_basic(9) [of b w0] by (simp add: polling_def)
  then show ?thesis
    by (simp add: stopDataUpdates_def clearInterval_def split: option.splits)
qed

lemma runCallback_inFlight:
  "inFlight w = (if isUpdating w then 1 else 0) \<Longrightarrow>
   inFlight (runCallback cb w) = (if isUpdating (runCallback cb w) then 1 else 0)"
proof (cases cb)
  case HideAlert
  assume "inFlight w = (if isUpdating w then 1 else 0)"
  then show ?thesis
    using HideAlert polling_basic(4) [of "''alertSection''" "''none''" w]
    by (simp add: inFlight_def polling_def)
next
  case (RemoveUpdated i)
  assume "inFlight w = (if isUpdating w then 1 else 0)"
  then show ?thesis
    using RemoveUpdated by (simp add: inFlight_def setElement_def split: option.splits)
next
  case UpdateHealthData
  assume "inFlight w = (if isUpdating w then 1 else 0)"
  then show ?thesis
    using UpdateHealthData updateHealthData_inFlight [of w] by simp
qed

lemma step_inFlight:
  assumes "inFlight w = (if isUpdating w then 1 else 0)" and "step e w = Some w'"
  shows "inFlight w' = (if isUpdating w' then 1 else 0)"
proof (cases e)
  case (Elapse d)
  with assms show ?thesis by (auto simp: inFlight_def split: if_splits)
next
  case FireTimeout
  with assms(2) obtain dl cb where
    w': "w' = runCallback cb (w\<lparr>timeouts := remove1 (dl, cb) (timeouts w)\<rparr>)"
    by (auto split: option.splits if_splits)
  have "inFlight (w\<lparr>timeouts := remove1 (dl, cb) (timeouts w)\<rparr>) =
          (if isUpdating (w\<lparr>timeouts := remove1 (dl, cb) (timeouts w)\<rparr>) then 1 else 0)"
    using assms(1) by (simp add: inFlight_def)
  then show ?thesis unfolding w' by (rule runCallback_inFlight)
next
  case (FireInterval i)
  with assms(2) obtain ivs where w': "w' = updateHealthData (w\<lparr>intervals := ivs\<rparr>)"
    by (auto split: option.splits if_splits)
  have "inFlight (w\<lparr>intervals := ivs\<rparr>) = (if isUpdating (w\<lparr>intervals := ivs\<rparr>) then 1 else 0)"
    using assms(1) by (simp add: inFlight_def)
  then show ?thesis unfolding w' using updateHealthData_inFlight by simp
next
  case (Click c)
  with assms(2) have "w' = click c w" by (auto split: option.splits if_splits)
  then show ?thesis using assms(1) click_inFlight [of c w] by simp
next
  case (VisibilityChange h)
  with assms(2) have "w' = visibilitychange h w" by simp
  then show ?thesis
    using assms(1) startDataUpdates_pending [of "w\<lparr>hidden := h\<rparr>"]
      stopDataUpdates_pending [of "w\<lparr>hidden := h\<rparr>"]
    by (cases h) (simp_all add: visibilitychange_def inFlight_def Let_def)
next
  case (HealthDataResponse r)
  with assms(2) have mem: "HealthDataReq \<in> set (pending w)"
    and w': "w' = snd (updateHealthData_resume r (w\<lparr>pending := remove1 HealthDataReq (pending w)\<rparr>))"
    by (auto split: if_splits)
  from mem have "0 < inFlight w"
    using count_list_0_iff [of "pending w" HealthDataReq] by (simp add: inFlight_def)
  with assms(1) have one: "inFlight w = 1" by (simp split: if_splits)
  have "polling w' = (False, snd (polling (w\<lparr>pending := remove1 HealthDataReq (pending w)\<rparr>)))"
    unfolding w' by (rule polling_updateHealthData_resume)
  then have "isUpdating w' = False" "pending w' = remove1 HealthDataReq (pending w)"
    by (simp_all add: polling_def)
  then show ?thesis using one mem by (simp add: inFlight_def count_list_remove1)
next
  case (ActionResponse k r)
  let ?w0 = "w\<lparr>pending := take k (pending w) @ drop (Suc k) (pending w)\<rparr>"
  from ActionResponse assms(2) have k: "k < length (pending w)"
    and res: "resume (pending w ! k) r ?w0 = Some w'"
    by (auto split: if_splits)
  from res have ne: "pending w ! k \<noteq> HealthDataReq" by (cases "pending w ! k") auto
  from res have "polling w' = polling ?w0"
    by (cases "pending w ! k") (auto simp: polling_resume)
  then have "isUpdating w' = isUpdating w" "pending w' = take k (pending w) @ drop (Suc k) (pending w)"
    by (simp_all add: polling_def)
  then show ?thesis using assms(1) count_list_drop_nth [OF k ne] by (simp add: inFlight_def)
next
  case BeforeUnload
  with assms(2) have "w' = beforeunload w" by simp
  then show ?thesis
    using assms(1) stopDataUpdates_pending [of w] by (simp add: beforeunload_def inFlight_def)
qed

lemma run_inFlight:
  "inFlight w = (if isUpdating w then 1 else 0) \<Longrightarrow> run evs w = Some w' \<Longrightarrow>
   inFlight w' = (if isUpdating w' then 1 else 0)"
proof (induction evs arbitrary: w)
  case Nil
  then show ?case by simp
next
  case (Cons e evs)
  from Cons.prems(2) obtain w1 where s: "step e w = Some w1" and r: "run evs w1 = Some w'"
    by (auto split: option.splits)
  from Cons.prems(1) s have "inFlight w1 = (if isUpdating w1 then 1 else 0)" by (rule step_inFlight)
  then show ?case using r by (rule Cons.IH)
qed

lemma HealthDashboard_new_inFlight:
  "inFlight (HealthDashboard_new d) = (if isUpdating (HealthDashboard_new d) then 1 else 0)"
proof -
  let ?w0 = "\<lparr>updateInterval = 5000, isUpdating = False, chart = None, lastUpdateTime = None,
                emergencyMode = False, updateTimer = None, document = d, hidden = False,
                now = 0, nextTimerId = 1, timeouts = [], intervals = [], pending = [],
                console = []\<rparr>"
  have a: "pending (initChart ?w0) = [] \<and> isUpdating (initChart ?w0) = False"
    by (simp add: initChart_def split: option.splits)
  obtain c w1 where s: "startDataUpdates (initChart ?w0) = (c, w1)"
    by (cases "startDataUpdates (initChart ?w0)")
  then have b: "pending w1 = [] \<and> isUpdating w1 = False"
    using startDataUpdates_pending [of "initChart ?w0"] a by simp
  then have i1: "inFlight w1 = (if isUpdating w1 then 1 else 0)" by (simp add: inFlight_def)
  show ?thesis
    using s i1 updateHealthData_inFlight [OF i1]
    by (cases c) (simp_all add: HealthDashboard_new_def init_def)
qed

lemma tick_while_pending:
  assumes "isUpdating w" and "step (FireInterval i) w = Some w'"
  shows "pending w' = pending w \<and> isUpdating w'"
proof -
  from assms(2) obtain ivs where "w' = updateHealthData (w\<lparr>intervals := ivs\<rparr>)"
    by (auto split: option.splits if_splits)
  with assms(1) show ?thesis by (simp add: updateHealthData_def)
qed

text \<open>
  C2. In every state the controller reaches from page load, at most one snapshot request
  is in flight, and one is in flight exactly when \<^verbatim>\<open>isUpdating\<close> is set. While it is set,
  \<^verbatim>\<open>updateHealthData\<close> returns the state unchanged, whether it is called by the interval
  timer or by the one-shot timer of a manual trigger: no request is issued and none is
  queued. Every settled snapshot request, whatever its outcome, leaves the flag cleared.
\<close>

theorem at_most_one_fetch_in_flight:
  assumes "run evs (HealthDashboard_new d) = Some w"
  shows "inFlight w \<le> 1 \<and> (isUpdating w \<longleftrightarrow> inFlight w = 1) \<and>
         (isUpdating w \<longrightarrow>
            updateHealthData w = w \<and> runCallback UpdateHealthData w = w \<and>
            (\<forall>i w'. step (FireInterval i) w = Some w' \<longrightarrow> pending w' = pending w \<and> isUpdating w')) \<and>
         (\<forall>r w'. step (HealthDataResponse r) w = Some w' \<longrightarrow> \<not> isUpdating w' \<and> inFlight w' = 0)"
proof -
  have inv: "inFlight w = (if isUpdating w then 1 else 0)"
    using HealthDashboard_new_inFlight assms by (rule run_inFlight)
  have cleared: "\<not> isUpdating w' \<and> inFlight w' = 0"
    if s: "step (HealthDataResponse r) w = Some w'" for r w'
  proof -
    from s have "w' = snd (updateHealthData_resume r (w\<lparr>pending := remove1 HealthDataReq (pending w)\<rparr>))"
      by (simp split: if_splits)
    then have "isUpdating w' = False"
      using polling_updateHealthData_resume [of r "w\<lparr>pending := remove1 HealthDataReq (pending w)\<rparr>"]
      by (simp add: polling_def)
    moreover have "inFlight w' = (if isUpdating w' then 1 else 0)"
      using inv s by (rule step_inFlight)
    ultimately show ?thesis by simp
  qed
  have a: "inFlight w \<le> 1 \<and> (isUpdating w \<longleftrightarrow> inFlight w = 1)"
    using inv by simp
  have b: "isUpdating w \<longrightarrow> updateHealthData w = w \<and> runCallback UpdateHealthData w = w"
    by (simp add: updateHealthData_def)
  show ?thesis
    using a b tick_while_pending [of w] cleared by blast
qed

text \<open>The first tick on the page of the repository arrives while the initial request is
  still in flight; then the request is rejected.\<close>

theorem at_most_one_fetch_in_flight_witness:
  "(let page = HealthDashboard_new index_html;
        w = page\<lparr>now := 5000\<rparr>;
        w' = w\<lparr>intervals := [(1, 10000, 5000)]\<rparr>
    in run [Elapse 5000] page = Some w \<and> isUpdating w \<and> pending w = [HealthDataReq] \<and>
       inFlight w = 1 \<and> updateHealthData w = w \<and>
       step (FireInterval 1) w = Some w' \<and> pending w' = [HealthDataReq] \<and>
       \<not> isUpdating (the (step (HealthDataResponse (Rejected ''Failed to fetch'')) w)))"
proof -
  let ?page = "HealthDashboard_new index_html"
  let ?w = "?page\<lparr>now := 5000\<rparr>"
  note p = page_polling_fields
  have r: "run [Elapse 5000] ?page = Some ?w"
    by (simp add: p page_counters)
  have u: "isUpdating ?w" by (simp add: p)
  have s2: "step (FireInterval 1) ?w = Some (?w\<lparr>intervals := [(1, 10000, 5000)]\<rparr>)"
    by (simp add: p updateHealthData_def)
  obtain w1 where s1: "step (HealthDataResponse (Rejected ''Failed to fetch'')) ?w = Some w1"
    by (simp add: p)
  note t = at_most_one_fetch_in_flight [OF r]
  have "inFlight ?w = 1" using t u by simp
  moreover have "updateHealthData ?w = ?w" using t u by simp
  moreover have "\<not> isUpdating w1" using t s1 by blast
  ultimately show ?thesis
    unfolding Let_def using r u s2 s1 by (simp add: p)
qed

subsection \<open>A failed snapshot request\<close>

lemma updateConnectionStatus_Normal:
  assumes "document w ''connectionStatus'' = Some c" and "previousElementSibling c \<noteq> None"
  shows "updateConnectionStatus b w =
           (Normal, setElement ''connectionStatus''
              (c\<lparr>textContent := [Str (if b then ''Connected'' else ''Disconnected'')],
                 previousElementSibling := Some
                   (if b then [''fas'', ''fa-wifi'', ''text-success'', ''me-1'']
                    else [''fas'', ''fa-wifi'', ''text-danger'', ''me-1''])\<rparr>) w)"
  using assms by (auto simp: updateConnectionStatus_def Let_def)

lemma showLoading_keeps:
  "alertSlot (showLoading b w) = alertSlot w"
  "timeouts (showLoading b w) = timeouts w"
  "console (showLoading b w) = console w"
  "connectionIndicator (showLoading b w) = connectionIndicator w"
  by (simp_all add: showLoading_def alertSlot_def connectionIndicator_def setElement_def
        split: option.splits)

lemma alertSlot_field_updates:
  "alertSlot (w\<lparr>isUpdating := b\<rparr>) = alertSlot w"
  "alertSlot (w\<lparr>console := c\<rparr>) = alertSlot w"
  "alertSlot (w\<lparr>pending := p\<rparr>) = alertSlot w"
  "alertSlot (w\<lparr>now := t\<rparr>) = alertSlot w"
  "alertSlot (w\<lparr>timeouts := ts\<rparr>) = alertSlot w"
  "alertSlot (w\<lparr>intervals := ivs\<rparr>) = alertSlot w"
  by (simp_all add: alertSlot_def)

lemma showAlert_console: "console (showAlert ty msg w) = console w"
  by (simp add: showAlert_def setElement_def setTimeout_def split: option.splits)

lemma transportError_try:
  "transportError r = Some e \<Longrightarrow> updateHealthData_try r w = (Throw e, w)"
  by (auto simp: transportError_def updateHealthData_try_def split: fetch_result.splits if_splits)

lemma idle_tick:
  assumes "\<not> isUpdating w" and "step (FireInterval i) (w\<lparr>now := t\<rparr>) = Some w2"
  shows "pending w2 = pending w @ [HealthDataReq] \<and> isUpdating w2"
proof -
  from assms(2) obtain ivs where w2: "w2 = updateHealthData (w\<lparr>now := t, intervals := ivs\<rparr>)"
    by (auto split: option.splits if_splits)
  have "pending (showLoading True v) = pending v" for v
    using polling_basic(8) [of True v] by (simp add: polling_def)
  moreover have "isUpdating (showLoading True v) = isUpdating v" for v
    using polling_basic(8) [of True v] by (simp add: polling_def)
  ultimately show ?thesis
    using assms(1) unfolding w2 by (simp add: updateHealthData_def fetch_def)
qed

text \<open>
  C9. When a snapshot request fails (the fetch is rejected, or the status of the response
  is not a success status), on a page with the alert elements and the connection
  indicator: no exception leaves \<^verbatim>\<open>updateHealthData\<close>, the error is logged once, one alert
  of type \<^verbatim>\<open>error\<close> is raised with one hide timer, the connection indicator shows
  Disconnected, the interval timer and its stored handle are untouched, the in-flight
  flag is cleared, and the next tick of the interval timer issues a snapshot request.
\<close>

theorem failed_fetch_reported_polling_continues:
  assumes "transportError r = Some e"
    and "alertSlot w \<noteq> None"
    and "document w ''connectionStatus'' = Some c" and "previousElementSibling c \<noteq> None"
  shows "let (outcome, w') = updateHealthData_resume r w
         in outcome = Normal \<and>
            console w' = console w @ [(''Error updating health data:'', e)] \<and>
            alertSlot w' = raised ''error'' (Str ''Failed to update health data: '' # message e) \<and>
            timeouts w' = timeouts w @ [(now w + 5000, HideAlert)] \<and>
            connectionIndicator w' =
              Some ([Str ''Disconnected''], Some [''fas'', ''fa-wifi'', ''text-danger'', ''me-1'']) \<and>
            intervals w' = intervals w \<and> updateTimer w' = updateTimer w \<and> \<not> isUpdating w' \<and>
            (\<forall>i t w2. step (FireInterval i) (w'\<lparr>now := t\<rparr>) = Some w2 \<longrightarrow>
               pending w2 = pending w' @ [HealthDataReq] \<and> isUpdating w2)"
proof -
  let ?w1 = "w\<lparr>console := console w @ [(''Error updating health data:'', e)]\<rparr>"
  let ?w2 = "showAlert ''error'' (Str ''Failed to update health data: '' # message e) ?w1"
  let ?c = "c\<lparr>textContent := [Str ''Disconnected''],
               previousElementSibling := Some [''fas'', ''fa-wifi'', ''text-danger'', ''me-1'']\<rparr>"
  let ?w3 = "setElement ''connectionStatus'' ?c ?w2"
  let ?w' = "(showLoading False ?w3)\<lparr>isUpdating := False\<rparr>"
  have slot1: "alertSlot ?w1 \<noteq> None" using assms(2) by (simp add: alertSlot_field_updates)
  have c2: "document ?w2 ''connectionStatus'' = Some c"
    using assms(3) by (simp add: showAlert_document_other)
  have conn: "updateConnectionStatus False ?w2 = (Normal, ?w3)"
    using updateConnectionStatus_Normal [OF c2 assms(4), of False] by simp
  have res: "updateHealthData_resume r w = (Normal, ?w')"
    using transportError_try [OF assms(1), of w] conn
    by (simp add: updateHealthData_resume_def updateHealthData_catch_def)
  have pol: "polling ?w' = (False, snd (polling w))"
    using polling_updateHealthData_resume [of r w] res by simp
  have a: "console ?w' = console w @ [(''Error updating health data:'', e)]"
    by (simp add: showLoading_keeps setElement_def showAlert_console)
  have b: "alertSlot ?w' = raised ''error'' (Str ''Failed to update health data: '' # message e)"
    using showAlert_raised [OF slot1]
    by (simp add: alertSlot_field_updates showLoading_keeps alertSlot_setElement)
  have t: "timeouts ?w' = timeouts w @ [(now w + 5000, HideAlert)]"
    using showAlert_timeouts [OF slot1]
    by (simp add: showLoading_keeps setElement_keeps)
  have ci: "connectionIndicator ?w' =
              Some ([Str ''Disconnected''], Some [''fas'', ''fa-wifi'', ''text-danger'', ''me-1''])"
  proof -
    have "connectionIndicator ?w' = connectionIndicator (showLoading False ?w3)"
      by (simp add: connectionIndicator_def)
    also have "\<dots> = connectionIndicator ?w3" by (rule showLoading_keeps)
    also have "\<dots> = Some ([Str ''Disconnected''], Some [''fas'', ''fa-wifi'', ''text-danger'', ''me-1''])"
      by (simp add: connectionIndicator_def setElement_def)
    finally show ?thesis .
  qed
  have tick: "pending w2 = pending ?w' @ [HealthDataReq] \<and> isUpdating w2"
    if "step (FireInterval i) (?w'\<lparr>now := t\<rparr>) = Some w2" for i t w2
    using idle_tick [of ?w' i t w2] that pol by (simp add: polling_def)
  show ?thesis
    unfolding res Let_def prod.case
    using a b t ci pol tick by (simp add: polling_def)
qed

text \<open>The first request of the page of the repository is answered with status 503; the
  tick at 5000 ms issues the next request.\<close>

theorem failed_fetch_reported_polling_continues_witness:
  "(let w = (HealthDashboard_new index_html)\<lparr>pending := []\<rparr>;
        (outcome, w') = updateHealthData_resume (Response 503 (Malformed ''Service Unavailable'')) w
    in transportError (Response 503 (Malformed ''Service Unavailable'') :: Snapshot fetch_result)
         = Some (HttpError 503) \<and>
       outcome = Normal \<and>
       alertSlot w' = raised ''error''
         [Str ''Failed to update health data: '', Str ''HTTP error! status: '', Num 503] \<and>
       timeouts w' = [(5000, HideAlert)] \<and>
       connectionIndicator w' =
         Some ([Str ''Disconnected''], Some [''fas'', ''fa-wifi'', ''text-danger'', ''me-1'']) \<and>
       intervals w' = [(1, 5000, 5000)] \<and> updateTimer w' = Some 1 \<and> \<not> isUpdating w' \<and>
       map_option pending (step (FireInterval 1) (w'\<lparr>now := 5000\<rparr>)) = Some [HealthDataReq])"
proof -
  let ?w = "(HealthDashboard_new index_html)\<lparr>pending := []\<rparr>"
  let ?r = "Response 503 (Malformed ''Service Unavailable'') :: Snapshot fetch_result"
  have e: "transportError ?r = Some (HttpError 503)"
    by (simp add: transportError_def ok_def)
  have slot: "alertSlot ?w \<noteq> None"
    by (simp add: alertSlot_field_updates alertSlot_page)
  have c: "document ?w ''connectionStatus'' =
     Some (blank\<lparr>textContent := [Str ''Connected''],
             previousElementSibling := Some [''fas'', ''fa-wifi'', ''text-success'', ''me-1'']\<rparr>)"
    by (simp add: page_connectionStatus)
  obtain outcome w' where res: "updateHealthData_resume ?r ?w = (outcome, w')"
    by (cases "updateHealthData_resume ?r ?w")
  have sib: "previousElementSibling (blank\<lparr>textContent := [Str ''Connected''],
             previousElementSibling := Some [''fas'', ''fa-wifi'', ''text-success'', ''me-1'']\<rparr>) \<noteq> None"
    by simp
  note t = failed_fetch_reported_polling_continues [OF e slot c sib, unfolded res Let_def prod.case]
  have iv: "intervals w' = [(1, 5000, 5000)]" "pending w' = []" "updateTimer w' = Some 1"
    using polling_updateHealthData_resume [of ?r ?w] res
    by (simp_all add: page_polling_fields polling_def)
  then obtain w2 where s: "step (FireInterval 1) (w'\<lparr>now := 5000\<rparr>) = Some w2"
    by simp
  from t s have "pending w2 = pending w' @ [HealthDataReq]" by blast
  then have p2: "map_option pending (step (FireInterval 1) (w'\<lparr>now := 5000\<rparr>)) = Some [HealthDataReq]"
    using s iv by simp
  from t have rest: "outcome = Normal"
    "alertSlot w' = raised ''error'' (Str ''Failed to update health data: '' # message (HttpError 503))"
    "timeouts w' = timeouts ?w @ [(now ?w + 5000, HideAlert)]"
    "connectionIndicator w' =
       Some ([Str ''Disconnected''], Some [''fas'', ''fa-wifi'', ''text-danger'', ''me-1''])"
    "\<not> isUpdating w'"
    by blast+
  show ?thesis
    unfolding Let_def res prod.case
    using e p2 iv rest by (simp add: page_counters)
qed

subsection \<open>A snapshot without health data\<close>

lemma observations_cong:
  assumes "\<And>j. j \<in> {''alertSection'', ''healthAlert'', ''alertMessage'', ''connectionStatus'',
                      ''healthStatus'', ''statusIndicator'', ''healthScore'', ''healthScoreBar'',
                      ''heartRate'', ''bloodOxygen'', ''temperature'',
                      ''activityLevel'', ''sleepQuality'', ''stressLevel''} \<Longrightarrow>
                document a j = document b j"
  shows "alertSlot a = alertSlot b" "connectionIndicator a = connectionIndicator b"
    "statusIndicator a = statusIndicator b" "scoreText a = scoreText b" "tiles a = tiles b"
  using assms
  by (simp_all add: alertSlot_def connectionIndicator_def statusIndicator_def scoreText_def tiles_def)

text \<open>The try block on a snapshot without health data, when a chart exists: everything is
  rendered up to the chart update, which throws.\<close>

lemma waiting_try:
  assumes "ok st" and "health_data d = None"
    and "status (anomaly_result d) = ''Waiting for fingerprint scan...''"
    and "chart w \<noteq> None"
  shows \<open>\<exists>w4. updateHealthData_try (Response st (Json d)) w =
                (Throw (TypeError ''Cannot read properties of null (reading 'timestamp')''), w4) \<and>
              nonpage w4 = nonpage w \<and>
              alertSlot w4 = alertSlot w \<and> connectionIndicator w4 = connectionIndicator w \<and>
              document w4 ''connectionStatus'' = document w ''connectionStatus'' \<and>
              tiles w4 = map (map_option (\<lambda>_. [Str ''--''])) (tiles w) \<and>
              (statusIndicator w \<noteq> None \<longrightarrow>
                 scoreText w4 = scoreText w \<and>
                 statusIndicator w4 =
                   Some ([Str ''Waiting for scan...''],
                         [Str ''<i class="fas fa-circle text-secondary"></i>'']))\<close>
proof -
  let ?wa = "updateMetrics None w"
  let ?wb = "updateHealthStatus (anomaly_result d) None ?wa"
  let ?wc = "updateRecommendations (recommendations d) ?wb"
  let ?wd = "updateModelMetrics (metrics d) ?wc"
  note hs = updateHealthStatus_waiting [OF assms(3)]
  have np: "nonpage ?wd = nonpage w"
    by (simp add: nonpage_basic hs(1) updateMetrics_def nonpage_fold_setText)
  then have "chart ?wd = chart w" by (rule nonpage_fields)
  with assms(4) obtain ch where ch: "chart ?wd = Some ch" by auto
  have thrown: "updateHealthData_try (Response st (Json d)) w =
               (Throw (TypeError ''Cannot read properties of null (reading 'timestamp')''), ?wd)"
    using assms(1,2) ch by (simp add: updateHealthData_try_def updateChart_def)
  have other: "document ?wd j = document w j"
    if "j \<in> {''alertSection'', ''healthAlert'', ''alertMessage'', ''connectionStatus''}" for j
    using that
    by (auto simp: document_updateModelMetrics document_updateRecommendations hs(2)
          document_updateMetrics)
  have slot: "alertSlot ?wd = alertSlot w" "connectionIndicator ?wd = connectionIndicator w"
    using other by (simp_all add: alertSlot_def connectionIndicator_def)
  have t1: "tiles ?wa = map (map_option (\<lambda>_. [Str ''--''])) (tiles w)"
    by (simp add: tiles_def updateMetrics_def document_setText option.map_comp comp_def)
  have "document ?wd j = document ?wa j"
    if "j \<in> {''heartRate'', ''bloodOxygen'', ''temperature'',
              ''activityLevel'', ''sleepQuality'', ''stressLevel''}" for j
    using that
    by (auto simp: document_updateModelMetrics document_updateRecommendations hs(2))
  then have t4: "tiles ?wd = tiles ?wa" by (simp add: tiles_def)
  have score: "scoreText ?wd = scoreText w" if s: "statusIndicator w \<noteq> None"
  proof -
    have "statusIndicator ?wa = statusIndicator w"
      by (simp add: statusIndicator_def document_updateMetrics)
    with s have "document ?wb ''healthScore'' = document ?wa ''healthScore''"
      by (simp add: hs(3))
    then show ?thesis
      by (simp add: scoreText_def document_updateModelMetrics document_updateRecommendations
            document_updateMetrics)
  qed
  have ind: \<open>statusIndicator ?wd =
                Some ([Str ''Waiting for scan...''],
                      [Str ''<i class="fas fa-circle text-secondary"></i>''])\<close>
    if s: "statusIndicator w \<noteq> None"
  proof -
    have "statusIndicator ?wa = statusIndicator w"
      by (simp add: statusIndicator_def document_updateMetrics)
    with s have \<open>statusIndicator ?wb =
                   Some ([Str ''Waiting for scan...''],
                         [Str ''<i class="fas fa-circle text-secondary"></i>''])\<close>
      using assms(3)
      by (auto simp: statusIndicator_def updateHealthStatus_def setElement_def split: option.splits)
    then show ?thesis
      by (simp add: statusIndicator_def document_updateModelMetrics document_updateRecommendations)
  qed
  show ?thesis
    using thrown np slot t1 t4 score ind other by auto
qed

text \<open>The catch and finally blocks after a throw in the try block.\<close>

lemma resume_after_throw:
  assumes "updateHealthData_try r w = (Throw e, w1)"
    and "alertSlot w1 \<noteq> None"
    and "document w1 ''connectionStatus'' = Some c" and "previousElementSibling c \<noteq> None"
  shows "\<exists>w'. updateHealthData_resume r w = (Normal, w') \<and>
              console w' = console w1 @ [(''Error updating health data:'', e)] \<and>
              alertSlot w' = raised ''error'' (Str ''Failed to update health data: '' # message e) \<and>
              timeouts w' = timeouts w1 @ [(now w1 + 5000, HideAlert)] \<and>
              connectionIndicator w' =
                Some ([Str ''Disconnected''], Some [''fas'', ''fa-wifi'', ''text-danger'', ''me-1'']) \<and>
              chart w' = chart w1 \<and> lastUpdateTime w' = lastUpdateTime w1 \<and>
              tiles w' = tiles w1 \<and> statusIndicator w' = statusIndicator w1 \<and>
              scoreText w' = scoreText w1 \<and> \<not> isUpdating w'"
proof -
  let ?wa = "w1\<lparr>console := console w1 @ [(''Error updating health data:'', e)]\<rparr>"
  let ?wb = "showAlert ''error'' (Str ''Failed to update health data: '' # message e) ?wa"
  let ?c = "c\<lparr>textContent := [Str ''Disconnected''],
               previousElementSibling := Some [''fas'', ''fa-wifi'', ''text-danger'', ''me-1'']\<rparr>"
  let ?wc = "setElement ''connectionStatus'' ?c ?wb"
  let ?w' = "(showLoading False ?wc)\<lparr>isUpdating := False\<rparr>"
  have slot1: "alertSlot ?wa \<noteq> None" using assms(2) by (simp add: alertSlot_field_updates)
  have c2: "document ?wb ''connectionStatus'' = Some c"
    using assms(3) by (simp add: showAlert_document_other)
  have conn: "updateConnectionStatus False ?wb = (Normal, ?wc)"
    using updateConnectionStatus_Normal [OF c2 assms(4), of False] by simp
  have res: "updateHealthData_resume r w = (Normal, ?w')"
    using assms(1) conn by (simp add: updateHealthData_resume_def updateHealthData_catch_def)
  have a: "console ?w' = console w1 @ [(''Error updating health data:'', e)]"
    by (simp add: showLoading_keeps setElement_def showAlert_console)
  have b: "alertSlot ?w' = raised ''error'' (Str ''Failed to update health data: '' # message e)"
    using showAlert_raised [OF slot1]
    by (simp add: alertSlot_field_updates showLoading_keeps alertSlot_setElement)
  have t: "timeouts ?w' = timeouts w1 @ [(now w1 + 5000, HideAlert)]"
    using showAlert_timeouts [OF slot1]
    by (simp add: showLoading_keeps setElement_keeps)
  have ci: "connectionIndicator ?w' =
              Some ([Str ''Disconnected''], Some [''fas'', ''fa-wifi'', ''text-danger'', ''me-1''])"
  proof -
    have "connectionIndicator ?w' = connectionIndicator (showLoading False ?wc)"
      by (simp add: connectionIndicator_def)
    also have "\<dots> = connectionIndicator ?wc" by (rule showLoading_keeps)
    also have "\<dots> = Some ([Str ''Disconnected''], Some [''fas'', ''fa-wifi'', ''text-danger'', ''me-1''])"
      by (simp add: connectionIndicator_def setElement_def)
    finally show ?thesis .
  qed
  have ch: "chart ?w' = chart w1" "lastUpdateTime ?w' = lastUpdateTime w1"
    by (simp_all add: nonpage_fields(1,4) [OF nonpage_basic(6)] setElement_def showAlert_keeps
          showAlert_def setTimeout_def split: option.splits)
  have doc: "document ?w' j = document w1 j"
    if "j \<in> {''healthStatus'', ''statusIndicator'', ''healthScore'', ''healthScoreBar'',
              ''heartRate'', ''bloodOxygen'', ''temperature'',
              ''activityLevel'', ''sleepQuality'', ''stressLevel''}" for j
    using that
    by (auto simp: document_showLoading setElement_def showAlert_document_other)
  have obs: "tiles ?w' = tiles w1" "statusIndicator ?w' = statusIndicator w1"
    "scoreText ?w' = scoreText w1"
    using doc by (simp_all add: tiles_def statusIndicator_def scoreText_def)
  show ?thesis
    using res a b t ci ch obs by simp
qed

lemma chart_updateMetrics: "chart (updateMetrics healthData w) = chart w"
proof -
  have f: "chart (fold g xs w) = chart w" if "\<And>x v. chart (g x v) = chart v"
    for g :: "'x \<Rightarrow> world \<Rightarrow> world" and xs
    using that by (induction xs arbitrary: w) simp_all
  show ?thesis
    unfolding updateMetrics_def
    by (cases healthData)
       (simp_all only: option.case, (rule f, simp add: setText_def setElement_def setTimeout_def
           split: option.splits prod.splits)+)
qed

lemma console_updateMetrics: "console (updateMetrics healthData w) = console w"
proof -
  have f: "console (fold g xs w) = console w" if "\<And>x v. console (g x v) = console v"
    for g :: "'x \<Rightarrow> world \<Rightarrow> world" and xs
    using that by (induction xs arbitrary: w) simp_all
  show ?thesis
    unfolding updateMetrics_def
    by (cases healthData)
       (simp_all only: option.case, (rule f, simp add: setText_def setElement_def setTimeout_def
           split: option.splits prod.splits)+)
qed

lemma presence_updateMetrics:
  "map_option (\<lambda>_. ()) (document (updateMetrics healthData w) j) = map_option (\<lambda>_. ()) (document w j)"
proof (cases healthData)
  case None
  then show ?thesis
    by (simp add: updateMetrics_def document_setText option.map_comp comp_def)
next
  case (Some h)
  have f: "map_option (\<lambda>_. ()) (document (fold (\<lambda>(i, v) w. case document w i of
                         Some element \<Rightarrow>
                           setTimeout (RemoveUpdated i) 1000
                             (setElement i
                               (element\<lparr>textContent := v,
                                  className := classList_add ''updated'' (className element)\<rparr>) w)
                       | None \<Rightarrow> w) xs w) j) = map_option (\<lambda>_. ()) (document w j)" for xs w
    by (induction xs arbitrary: w)
       (auto simp: setTimeout_def setElement_def split: option.splits)
  show ?thesis
    unfolding updateMetrics_def Some option.case by (rule f)
qed

text \<open>A snapshot with a reading and a normal verdict is rendered without a throw.\<close>

lemma reading_resume:
  assumes "ok st" and "health_data d = Some h"
    and "status (anomaly_result d) \<noteq> ''Waiting for fingerprint scan...''"
    and "\<not> is_anomaly (anomaly_result d)"
    and "chart w = Some (chartOf ps)" and "length ps \<le> 20"
    and "document w ''connectionStatus'' = Some c" and "previousElementSibling c \<noteq> None"
  shows "\<exists>w'. updateHealthData_resume (Response st (Json d)) w = (Normal, w') \<and>
              alertSlot w' = alertSlot w \<and> console w' = console w \<and>
              chart w' = Some (chartOf (if length ps < 20 then ps @ [h] else tl (ps @ [h]))) \<and>
              (document w ''healthScore'' \<noteq> None \<and> document w ''healthScoreBar'' \<noteq> None \<longrightarrow>
                 scoreText w' = Some [Num (health_score h)]) \<and>
              (statusIndicator w \<noteq> None \<longrightarrow> statusIndicator w' \<noteq> None) \<and>
              (\<exists>c'. document w' ''connectionStatus'' = Some c' \<and> previousElementSibling c' \<noteq> None) \<and>
              map (map_option (\<lambda>_. ())) (tiles w') = map (map_option (\<lambda>_. ())) (tiles w) \<and>
              \<not> isUpdating w'"
proof -
  let ?wa = "updateMetrics (Some h) w"
  let ?wb = "updateHealthStatus (anomaly_result d) (Some h) ?wa"
  let ?wc = "updateRecommendations (recommendations d) ?wb"
  let ?wd = "updateModelMetrics (metrics d) ?wc"
  let ?we = "?wd\<lparr>chart := Some (chartOf (if length ps < 20 then ps @ [h] else tl (ps @ [h])))\<rparr>"
  let ?wf = "updateLastUpdateTime (?we\<lparr>lastUpdateTime := Some (now ?we)\<rparr>)"
  note hs = updateHealthStatus_normal [OF assms(3,4)]
  have "chart ?wd = chart w"
    by (simp add: nonpage_fields(1) [OF nonpage_basic(9)] nonpage_fields(1) [OF nonpage_basic(10)]
          hs(3) chart_updateMetrics)
  then have "chart ?wd = Some (chartOf ps)" using assms(5) by simp
  then have uc: "updateChart (Some h) ?wd = (Normal, ?we)"
    using assms(6) by (rule updateChart_chartOf)
  have cf: "document ?wf ''connectionStatus'' = Some c"
    using assms(7)
    by (simp add: document_updateLastUpdateTime document_updateModelMetrics
          document_updateRecommendations hs(1) document_updateMetrics)
  let ?c = "c\<lparr>textContent := [Str ''Connected''],
               previousElementSibling := Some [''fas'', ''fa-wifi'', ''text-success'', ''me-1'']\<rparr>"
  let ?wg = "setElement ''connectionStatus'' ?c ?wf"
  let ?w' = "(showLoading False ?wg)\<lparr>isUpdating := False\<rparr>"
  have conn: "updateConnectionStatus True ?wf = (Normal, ?wg)"
    using updateConnectionStatus_Normal [OF cf assms(8), of True] by simp
  have t: "updateHealthData_try (Response st (Json d)) w = (Normal, ?wg)"
    using assms(1,2) uc conn by (simp add: updateHealthData_try_def)
  have res: "updateHealthData_resume (Response st (Json d)) w = (Normal, ?w')"
    using t by (simp add: updateHealthData_resume_def)
  have doc: "document ?w' j = document ?wb j"
    if "j \<notin> {''loadingOverlay'', ''connectionStatus'', ''lastUpdate'', ''modelAccuracy'',
              ''trainingSamples'', ''anomaliesDetected'', ''recommendationsList''}" for j
    using that
    by (simp add: document_showLoading setElement_def document_updateLastUpdateTime
          document_updateModelMetrics document_updateRecommendations)
  have slot: "alertSlot ?w' = alertSlot w"
  proof -
    have "alertSlot ?w' = alertSlot ?wb"
      using doc by (simp add: alertSlot_def)
    also have "\<dots> = alertSlot w"
      by (simp add: alertSlot_def hs(1) document_updateMetrics)
    finally show ?thesis .
  qed
  have ch: "chart ?w' = Some (chartOf (if length ps < 20 then ps @ [h] else tl (ps @ [h])))"
    by (simp add: nonpage_fields(1) [OF nonpage_basic(6)] setElement_def
          nonpage_fields(1) [OF nonpage_basic(8)])
  have cons: "console ?w' = console w"
  proof -
    have "console ?w' = console ?wd"
      by (simp add: nonpage_fields(2) [OF nonpage_basic(6)] setElement_def
            nonpage_fields(2) [OF nonpage_basic(8)])
    also have "\<dots> = console ?wb"
      by (simp add: nonpage_fields(2) [OF nonpage_basic(9)] nonpage_fields(2) [OF nonpage_basic(10)])
    also have "\<dots> = console w"
      by (simp add: hs(6) console_updateMetrics)
    finally show ?thesis .
  qed
  have score: "scoreText ?w' = Some [Num (health_score h)]"
    if "document w ''healthScore'' \<noteq> None \<and> document w ''healthScoreBar'' \<noteq> None"
  proof -
    have "scoreText ?w' = scoreText ?wb" using doc by (simp add: scoreText_def)
    moreover have "document ?wa ''healthScore'' \<noteq> None" "document ?wa ''healthScoreBar'' \<noteq> None"
      using that by (simp_all add: document_updateMetrics)
    ultimately show ?thesis using hs(4) by simp
  qed
  have ind: "statusIndicator ?w' \<noteq> None" if "statusIndicator w \<noteq> None"
  proof -
    have "statusIndicator ?w' = statusIndicator ?wb" using doc by (simp add: statusIndicator_def)
    moreover have "statusIndicator ?wa = statusIndicator w"
      by (simp add: statusIndicator_def document_updateMetrics)
    ultimately show ?thesis using hs(5) [of ?wa] that by simp
  qed
  have cs: "document ?w' ''connectionStatus'' = Some ?c"
    by (simp add: document_showLoading setElement_def)
  have "map_option (\<lambda>_. ()) (document ?w' j) = map_option (\<lambda>_. ()) (document w j)"
    if "j \<in> {''heartRate'', ''bloodOxygen'', ''temperature'',
              ''activityLevel'', ''sleepQuality'', ''stressLevel''}" for j
  proof -
    have "document ?w' j = document ?wa j" using that doc [of j] hs(1) [of j] by auto
    then show ?thesis by (simp add: presence_updateMetrics)
  qed
  then have tl: "map (map_option (\<lambda>_. ())) (tiles ?w') = map (map_option (\<lambda>_. ())) (tiles w)"
    by (simp add: tiles_def option.map_comp comp_def)
  show ?thesis
    using res slot cons ch score ind cs tl by auto
qed

lemma updateHealthData_idle:
  assumes "\<not> isUpdating w"
  shows "alertSlot (updateHealthData w) = alertSlot w"
    "statusIndicator (updateHealthData w) = statusIndicator w"
    "scoreText (updateHealthData w) = scoreText w"
    "tiles (updateHealthData w) = tiles w"
    "document (updateHealthData w) ''connectionStatus'' = document w ''connectionStatus''"
    "chart (updateHealthData w) = chart w"
    "console (updateHealthData w) = console w"
  using assms
  by (simp_all add: updateHealthData_def fetch_def alertSlot_def statusIndicator_def
        scoreText_def tiles_def document_showLoading
        nonpage_fields(1) [OF nonpage_basic(6)] nonpage_fields(2) [OF nonpage_basic(6)])

text \<open>
  C3 fails on the code. On the page of the repository a reading with score 85 is displayed,
  the next poll is issued and answered with the waiting snapshot (no health data). The
  tiles then show \<^verbatim>\<open>--\<close>, the status indicator is the neutral one and the chart still
  holds the one point of the reading. But \<^verbatim>\<open>updateChart(null)\<close> has thrown a TypeError:
  it is logged, an alert of type \<^verbatim>\<open>error\<close> is raised and the connection indicator shows
  Disconnected. And the health score still shows 85: the early return of the waiting
  branch of \<^verbatim>\<open>updateHealthStatus\<close> skips the block that would reset it.
\<close>

theorem waiting_snapshot_raises_error:
  \<open>scoreText (pollAnswered (normalSnapshot 85) (HealthDashboard_new index_html)) = Some [Num 85] \<and>
   \<not> isUpdating (pollAnswered (normalSnapshot 85) (HealthDashboard_new index_html)) \<and>
   tiles (pollAnswered waitingSnapshot
            (updateHealthData (pollAnswered (normalSnapshot 85) (HealthDashboard_new index_html)))) =
     [Some [Str ''--''], Some [Str ''--''], Some [Str ''--''],
      Some [Str ''--''], Some [Str ''--''], Some [Str ''--'']] \<and>
   statusIndicator (pollAnswered waitingSnapshot
            (updateHealthData (pollAnswered (normalSnapshot 85) (HealthDashboard_new index_html)))) =
     Some ([Str ''Waiting for scan...''], [Str ''<i class="fas fa-circle text-secondary"></i>'']) \<and>
   chart (pollAnswered waitingSnapshot
            (updateHealthData (pollAnswered (normalSnapshot 85) (HealthDashboard_new index_html)))) =
     Some (chartOf [reading 85]) \<and>
   console (pollAnswered waitingSnapshot
            (updateHealthData (pollAnswered (normalSnapshot 85) (HealthDashboard_new index_html)))) =
     [(''Error updating health data:'',
       TypeError ''Cannot read properties of null (reading 'timestamp')'')] \<and>
   alertSlot (pollAnswered waitingSnapshot
            (updateHealthData (pollAnswered (normalSnapshot 85) (HealthDashboard_new index_html)))) =
     raised ''error'' [Str ''Failed to update health data: '',
                       Str ''Cannot read properties of null (reading 'timestamp')''] \<and>
   connectionIndicator (pollAnswered waitingSnapshot
            (updateHealthData (pollAnswered (normalSnapshot 85) (HealthDashboard_new index_html)))) =
     Some ([Str ''Disconnected''], Some [''fas'', ''fa-wifi'', ''text-danger'', ''me-1'']) \<and>
   scoreText (pollAnswered waitingSnapshot
            (updateHealthData (pollAnswered (normalSnapshot 85) (HealthDashboard_new index_html)))) =
     Some [Num 85]\<close>
proof -
  let ?page = "HealthDashboard_new index_html"
  let ?p = "?page\<lparr>pending := remove1 HealthDataReq (pending ?page)\<rparr>"
  let ?d = "normalSnapshot 85"
  have d: "health_data ?d = Some (reading 85)"
    "status (anomaly_result ?d) \<noteq> ''Waiting for fingerprint scan...''"
    "\<not> is_anomaly (anomaly_result ?d)"
    by (simp_all add: normalSnapshot_def verdict_def)
  have ok: "ok 200" by (simp add: ok_def)
  have pc: "chart ?p = Some (chartOf [])" by (simp add: page_chart chartOf_Nil)
  have pcs: "document ?p ''connectionStatus'' =
     Some (blank\<lparr>textContent := [Str ''Connected''],
             previousElementSibling := Some [''fas'', ''fa-wifi'', ''text-success'', ''me-1'']\<rparr>)"
    by (simp add: page_connectionStatus)
  have sib: "previousElementSibling (blank\<lparr>textContent := [Str ''Connected''],
             previousElementSibling := Some [''fas'', ''fa-wifi'', ''text-success'', ''me-1'']\<rparr>) \<noteq> None"
    by simp
  obtain w1 where w1: "updateHealthData_resume (Response 200 (Json ?d)) ?p = (Normal, w1)"
    and a1: "alertSlot w1 = alertSlot ?p" and k1: "console w1 = console ?p"
    and c1: "chart w1 = Some (chartOf [reading 85])"
    and s1: "document ?p ''healthScore'' \<noteq> None \<and> document ?p ''healthScoreBar'' \<noteq> None \<longrightarrow>
               scoreText w1 = Some [Num (health_score (reading 85))]"
    and i1: "statusIndicator ?p \<noteq> None \<longrightarrow> statusIndicator w1 \<noteq> None"
    and cs1: "\<exists>c'. document w1 ''connectionStatus'' = Some c' \<and> previousElementSibling c' \<noteq> None"
    and p1: "map (map_option (\<lambda>_. ())) (tiles w1) = map (map_option (\<lambda>_. ())) (tiles ?p)"
    and u1: "\<not> isUpdating w1"
    using reading_resume [OF ok d pc _ pcs sib] by auto
  have first: "pollAnswered ?d ?page = w1" by (simp add: pollAnswered_def w1)
  have score1: "scoreText w1 = Some [Num 85]"
    using s1 page_observations(2,3) by (simp add: reading_def)
  have ind1: "statusIndicator w1 \<noteq> None"
    using i1 page_observations(1) by (simp add: statusIndicator_def)
  have slot1: "alertSlot w1 \<noteq> None"
    using a1 alertSlot_page by (simp add: alertSlot_field_updates)
  let ?w2 = "updateHealthData w1"
  let ?q = "?w2\<lparr>pending := remove1 HealthDataReq (pending ?w2)\<rparr>"
  note idle = updateHealthData_idle [OF u1]
  have wd: "health_data waitingSnapshot = None"
    "status (anomaly_result waitingSnapshot) = ''Waiting for fingerprint scan...''"
    by (simp_all add: waitingSnapshot_def)
  have qc: "chart ?q \<noteq> None" using idle(6) c1 by simp
  obtain w4 where thrown: "updateHealthData_try (Response 200 (Json waitingSnapshot)) ?q =
        (Throw (TypeError ''Cannot read properties of null (reading 'timestamp')''), w4)"
    and np: "nonpage w4 = nonpage ?q"
    and a4: "alertSlot w4 = alertSlot ?q"
    and cs4: "document w4 ''connectionStatus'' = document ?q ''connectionStatus''"
    and t4: "tiles w4 = map (map_option (\<lambda>_. [Str ''--''])) (tiles ?q)"
    and i4: \<open>statusIndicator ?q \<noteq> None \<longrightarrow>
                 scoreText w4 = scoreText ?q \<and>
                 statusIndicator w4 =
                   Some ([Str ''Waiting for scan...''],
                         [Str ''<i class="fas fa-circle text-secondary"></i>''])\<close>
    using waiting_try [OF ok wd qc] by auto
  have q_obs: "statusIndicator ?q = statusIndicator w1" "scoreText ?q = scoreText w1"
    "alertSlot ?q = alertSlot w1" "tiles ?q = tiles w1"
    "document ?q ''connectionStatus'' = document w1 ''connectionStatus''"
    using idle by (simp_all add: statusIndicator_def scoreText_def alertSlot_def tiles_def)
  from cs1 obtain c' where c': "document w4 ''connectionStatus'' = Some c'"
    "previousElementSibling c' \<noteq> None"
    using cs4 q_obs(5) by auto
  have slot4: "alertSlot w4 \<noteq> None" using a4 q_obs(3) slot1 by simp
  obtain w3 where w3: "updateHealthData_resume (Response 200 (Json waitingSnapshot)) ?q = (Normal, w3)"
    and r3: "console w3 = console w4 @ [(''Error updating health data:'',
               TypeError ''Cannot read properties of null (reading 'timestamp')'')]"
      "alertSlot w3 = raised ''error'' (Str ''Failed to update health data: '' #
               message (TypeError ''Cannot read properties of null (reading 'timestamp')''))"
      "connectionIndicator w3 =
         Some ([Str ''Disconnected''], Some [''fas'', ''fa-wifi'', ''text-danger'', ''me-1''])"
      "chart w3 = chart w4" "tiles w3 = tiles w4" "statusIndicator w3 = statusIndicator w4"
      "scoreText w3 = scoreText w4"
    using resume_after_throw [OF thrown slot4 c'] by auto
  have second: "pollAnswered waitingSnapshot ?w2 = w3" by (simp add: pollAnswered_def w3)
  have k4: "console w4 = []" "chart w4 = Some (chartOf [reading 85])"
    using nonpage_fields(1,2) [OF np] idle(6,7) k1 c1 by (simp_all add: page_console)
  have tiles3: "tiles w3 = [Some [Str ''--''], Some [Str ''--''], Some [Str ''--''],
      Some [Str ''--''], Some [Str ''--''], Some [Str ''--'']]"
  proof -
    have "tiles w3 = map (map_option (\<lambda>_. [Str ''--''])) (tiles w1)"
      using r3(5) t4 q_obs(4) by simp
    also have "\<dots> = map (map_option (\<lambda>_. [Str ''--''])) (map (map_option (\<lambda>_. ())) (tiles w1))"
      by (simp add: option.map_comp comp_def)
    also have "\<dots> = map (map_option (\<lambda>_. [Str ''--''])) (map (map_option (\<lambda>_. ())) (tiles ?page))"
      unfolding p1 by (simp add: tiles_def)
    also have "\<dots> = [Some [Str ''--''], Some [Str ''--''], Some [Str ''--''],
      Some [Str ''--''], Some [Str ''--''], Some [Str ''--'']]"
      by (simp add: page_observations(4))
    finally show ?thesis .
  qed
  show ?thesis
    unfolding first second
    using score1 u1 tiles3 r3 k4 i4 q_obs ind1 by simp
qed

subsection \<open>Session controls\<close>

lemma display_keeps:
  "map_option display (document (enableButton i t w) j) = map_option display (document w j)"
  "map_option display (document (disableButton i t w) j) = map_option display (document w j)"
  by (simp_all add: enableButton_def disableButton_def setElement_def split: option.splits)

lemma layout_keeps:
  "layout (enableButton i t w) = layout w"
  "layout (disableButton i t w) = layout w"
  "layout (showAlert ty msg w) = layout w"
  "layout (fetch q w) = layout w"
  "layout (w\<lparr>console := k\<rparr>) = layout w"
  by (simp_all add: layout_def display_keeps showAlert_document_other fetch_def)

lemma alertSlot_button:
  "i \<noteq> ''alertSection'' \<Longrightarrow> i \<noteq> ''healthAlert'' \<Longrightarrow> i \<noteq> ''alertMessage'' \<Longrightarrow>
   alertSlot (enableButton i t w) = alertSlot w"
  by (simp add: enableButton_def alertSlot_setElement split: option.splits)

lemma button_enableButton:
  "document w (controlId c) \<noteq> None \<Longrightarrow> button c (enableButton (controlId c) t w) = Some (False, t)"
  by (auto simp: button_def enableButton_def setElement_def)

lemma controlId_not_alert:
  "controlId c \<noteq> ''alertSection''" "controlId c \<noteq> ''healthAlert''" "controlId c \<noteq> ''alertMessage''"
  by (cases c; simp)+

lemma resume_requestOf:
  "resume (requestOf c t) r w =
     Some (enableButton (controlId c) t
       (case settled r of
          Inl e \<Rightarrow> showAlert ''danger'' (Str (failureText c) # message e)
                     (w\<lparr>console := console w @ [(case c of
                          RetrainBtn \<Rightarrow> ''Error retraining model:''
                        | NormalScanBtn \<Rightarrow> ''Error triggering normal scan:''
                        | EmergencyScanBtn \<Rightarrow> ''Error triggering emergency scan:''
                        | StopBtn \<Rightarrow> ''Error stopping monitoring:'', e)]\<rparr>)
        | Inr result \<Rightarrow>
            (case c of
               RetrainBtn \<Rightarrow> setTimeout UpdateHealthData 1000
                  (showAlert ''success'' [Str ''Model retrained successfully!''] w)
             | NormalScanBtn \<Rightarrow> setTimeout UpdateHealthData 500
                  (setDisplay ''stopBtn'' ''block'' (setDisplay ''fingerprintSection'' ''none''
                     (showAlert ''success'' [Str result] w)))
             | EmergencyScanBtn \<Rightarrow> setTimeout UpdateHealthData 500
                  (setDisplay ''stopBtn'' ''block'' (setDisplay ''fingerprintSection'' ''none''
                     (showAlert ''danger'' [Str result] w)))
             | StopBtn \<Rightarrow> setTimeout UpdateHealthData 500
                  (setDisplay ''stopBtn'' ''none'' (setDisplay ''fingerprintSection'' ''block''
                     (showAlert ''info'' [Str result] w))))))"
  by (cases c)
     (simp_all add: retrainModel_resume_def triggerNormalScan_resume_def
        triggerEmergencyScan_resume_def stopMonitoring_resume_def split: sum.splits)

lemma click_layout: "layout (click c w) = layout w"
  by (cases c)
     (simp_all add: retrainModel_def triggerNormalScan_def triggerEmergencyScan_def
        stopMonitoring_def layout_keeps split: option.splits)

lemma presence_keeps:
  "document (showAlert ty msg w) j = None \<longleftrightarrow> document w j = None"
  "document (setDisplay i v w) j = None \<longleftrightarrow> document w j = None"
  "document (setTimeout cb dl w) j = document w j"
  "document (w\<lparr>console := k\<rparr>) j = document w j"
  by (auto simp: showAlert_def setDisplay_def setTimeout_def setElement_def split: option.splits)

lemma enableButton_enabled:
  assumes "document v i = None \<longleftrightarrow> document w i = None" and "document w i \<noteq> None"
  shows "map_option (\<lambda>b. (disabled b, innerHTML b)) (document (enableButton i t v) i) = Some (False, t)"
  using assms by (auto simp: enableButton_def setElement_def)

lemma buttons_enabled:
  "document w ''retrainBtn'' \<noteq> None \<Longrightarrow>
     button RetrainBtn (retrainModel_resume t r w) = Some (False, t)"
  "document w ''normalScanBtn'' \<noteq> None \<Longrightarrow>
     button NormalScanBtn (triggerNormalScan_resume t r w) = Some (False, t)"
  "document w ''emergencyScanBtn'' \<noteq> None \<Longrightarrow>
     button EmergencyScanBtn (triggerEmergencyScan_resume t r w) = Some (False, t)"
  "document w ''stopBtn'' \<noteq> None \<Longrightarrow>
     button StopBtn (stopMonitoring_resume t r w) = Some (False, t)"
  unfolding button_def controlId.simps retrainModel_resume_def triggerNormalScan_resume_def
    triggerEmergencyScan_resume_def stopMonitoring_resume_def
  apply -
  subgoal by (rule enableButton_enabled [where w = w]) (simp_all add: presence_keeps split: sum.splits)
  subgoal by (rule enableButton_enabled [where w = w]) (simp_all add: presence_keeps split: sum.splits)
  subgoal by (rule enableButton_enabled [where w = w]) (simp_all add: presence_keeps split: sum.splits)
  subgoal by (rule enableButton_enabled [where w = w]) (simp_all add: presence_keeps split: sum.splits)
  done

lemma button_resume:
  assumes "document w (controlId c) \<noteq> None" and "resume (requestOf c t) r w = Some w'"
  shows "button c w' = Some (False, t)"
proof (cases c)
  case RetrainBtn
  with assms show ?thesis using buttons_enabled(1) [of w t r] by simp
next
  case NormalScanBtn
  with assms show ?thesis using buttons_enabled(2) [of w t r] by simp
next
  case EmergencyScanBtn
  with assms show ?thesis using buttons_enabled(3) [of w t r] by simp
next
  case StopBtn
  with assms show ?thesis using buttons_enabled(4) [of w t r] by simp
qed

lemma failed_resume:
  assumes "alertSlot w \<noteq> None" and "resume (requestOf c t) r w = Some w'" and "settled r = Inl e"
  shows "layout w' = layout w \<and> emergencyMode w' = emergencyMode w \<and>
         alertSlot w' = raised ''danger'' (Str (failureText c) # message e) \<and>
         timeouts w' = timeouts w @ [(now w + 5000, HideAlert)] \<and>
         polling w' = polling w"
proof -
  let ?k = "case c of RetrainBtn \<Rightarrow> ''Error retraining model:''
                      | NormalScanBtn \<Rightarrow> ''Error triggering normal scan:''
                      | EmergencyScanBtn \<Rightarrow> ''Error triggering emergency scan:''
                      | StopBtn \<Rightarrow> ''Error stopping monitoring:''"
  let ?v = "w\<lparr>console := console w @ [(?k, e)]\<rparr>"
  let ?a = "showAlert ''danger'' (Str (failureText c) # message e) ?v"
  from assms(2,3) have w': "w' = enableButton (controlId c) t ?a"
    by (simp add: resume_requestOf)
  have slot: "alertSlot ?v \<noteq> None" using assms(1) by (simp add: alertSlot_field_updates)
  have np: "nonpage w' = nonpage ?a" unfolding w' by (rule nonpage_basic)
  have "layout w' = layout w"
    unfolding w' by (simp add: layout_keeps)
  moreover have "emergencyMode w' = emergencyMode w"
    using nonpage_fields(6) [OF np] by (simp add: showAlert_keeps)
  moreover have "alertSlot w' = raised ''danger'' (Str (failureText c) # message e)"
    unfolding w' using showAlert_raised [OF slot]
    by (simp add: alertSlot_button controlId_not_alert)
  moreover have "timeouts w' = timeouts w @ [(now w + 5000, HideAlert)]"
    using nonpage_fields(3) [OF np] showAlert_timeouts [OF slot] by simp
  moreover have "polling w' = polling w"
    unfolding w' by (simp add: polling_basic polling_field_updates)
  ultimately show ?thesis by simp
qed

text \<open>
  C8. For each of the controls (normal scan, emergency scan, stop, and retrain as well), on
  a page with the control and the alert elements: issuing the request does not change the
  layout of the session controls; when the request has settled, in every outcome, the
  control is enabled again with its original caption; and when it has failed (rejected
  fetch, non-success status or unreadable body), the layout of the session controls, the
  emergency flag and the polling state are as before, one \<^verbatim>\<open>danger\<close> alert with the
  failure text of the control is shown and nothing but its hide timer is scheduled.
\<close>

theorem failed_transition_keeps_layout:
  assumes "document w (controlId c) \<noteq> None" and "alertSlot w \<noteq> None"
  shows "layout (click c w) = layout w \<and>
         (case resume (requestOf c t) r w of
            None \<Rightarrow> False
          | Some w' \<Rightarrow>
              button c w' = Some (False, t) \<and>
              (\<forall>e. settled r = Inl e \<longrightarrow>
                 layout w' = layout w \<and> emergencyMode w' = emergencyMode w \<and>
                 alertSlot w' = raised ''danger'' (Str (failureText c) # message e) \<and>
                 timeouts w' = timeouts w @ [(now w + 5000, HideAlert)] \<and>
                 polling w' = polling w))"
proof -
  obtain w' where r: "resume (requestOf c t) r w = Some w'"
    by (simp add: resume_requestOf)
  have "button c w' = Some (False, t)"
    using assms(1) r by (rule button_resume)
  moreover have "layout w' = layout w \<and> emergencyMode w' = emergencyMode w \<and>
         alertSlot w' = raised ''danger'' (Str (failureText c) # message e) \<and>
         timeouts w' = timeouts w @ [(now w + 5000, HideAlert)] \<and>
         polling w' = polling w" if "settled r = Inl e" for e
    using assms(2) r that by (rule failed_resume)
  ultimately show ?thesis
    unfolding r option.case using click_layout [of c w] by blast
qed

text \<open>On the page of the repository the normal-scan button is clicked and the backend
  answers with status 500.\<close>

theorem failed_transition_keeps_layout_witness:
  \<open>layout (HealthDashboard_new index_html) = (Some [], Some ''none'') \<and>
   button NormalScanBtn (click NormalScanBtn (HealthDashboard_new index_html)) =
     Some (True, [Str ''<i class="fas fa-spinner fa-spin me-2"></i>Scanning...'']) \<and>
   layout (click NormalScanBtn (HealthDashboard_new index_html)) = (Some [], Some ''none'') \<and>
   (case resume (NormalScanReq [Str ''<i class="fas fa-fingerprint me-2"></i>Normal Health Scan''])
           (Response 500 (Malformed ''Internal Server Error''))
           (click NormalScanBtn (HealthDashboard_new index_html)) of
      None \<Rightarrow> False
    | Some w' \<Rightarrow>
        button NormalScanBtn w' =
          Some (False, [Str ''<i class="fas fa-fingerprint me-2"></i>Normal Health Scan'']) \<and>
        layout w' = (Some [], Some ''none'') \<and>
        alertSlot w' = raised ''danger''
          [Str ''Failed to start normal monitoring: '', Str ''HTTP error! status: '', Num 500])\<close>
proof -
  let ?page = "HealthDashboard_new index_html"
  let ?w = "click NormalScanBtn ?page"
  have p: "document ?page (controlId NormalScanBtn) \<noteq> None" "alertSlot ?page \<noteq> None"
    by (simp_all add: page_normalScanBtn alertSlot_page)
  have b: \<open>button NormalScanBtn ?w =
     Some (True, [Str ''<i class="fas fa-spinner fa-spin me-2"></i>Scanning...''])\<close>
    by (simp add: button_def triggerNormalScan_def page_normalScanBtn fetch_def
          disableButton_def setElement_def)
  then have w: "document ?w (controlId NormalScanBtn) \<noteq> None"
    by (auto simp: button_def)
  have "alertSlot ?w = alertSlot ?page"
    by (simp add: triggerNormalScan_def page_normalScanBtn fetch_def alertSlot_field_updates
          disableButton_def alertSlot_setElement)
  then have a: "alertSlot ?w \<noteq> None" using p(2) by simp
  have s: "settled (Response 500 (Malformed ''Internal Server Error'') :: string fetch_result) =
             Inl (HttpError 500)"
    by (simp add: settled_def ok_def)
  have l1: "layout ?w = layout ?page"
    using failed_transition_keeps_layout [OF p, of "[]" "Rejected []"] by (rule conjunct1)
  obtain w' where r: \<open>resume (NormalScanReq [Str ''<i class="fas fa-fingerprint me-2"></i>Normal Health Scan''])
           (Response 500 (Malformed ''Internal Server Error'')) ?w = Some w'\<close>
    by simp
  have \<open>button NormalScanBtn w' =
          Some (False, [Str ''<i class="fas fa-fingerprint me-2"></i>Normal Health Scan'']) \<and>
        (\<forall>e. settled (Response 500 (Malformed ''Internal Server Error'') :: string fetch_result) = Inl e \<longrightarrow>
           layout w' = layout ?w \<and> emergencyMode w' = emergencyMode ?w \<and>
           alertSlot w' = raised ''danger'' (Str (failureText NormalScanBtn) # message e) \<and>
           timeouts w' = timeouts ?w @ [(now ?w + 5000, HideAlert)] \<and>
           polling w' = polling ?w)\<close>
    using failed_transition_keeps_layout [OF w a,
        of \<open>[Str ''<i class="fas fa-fingerprint me-2"></i>Normal Health Scan'']\<close>
           "Response 500 (Malformed ''Internal Server Error'')"]
    unfolding requestOf.simps r option.case by (rule conjunct2)
  then have f: \<open>button NormalScanBtn w' =
          Some (False, [Str ''<i class="fas fa-fingerprint me-2"></i>Normal Health Scan''])\<close>
      "layout w' = layout ?w"
      "alertSlot w' = raised ''danger'' (Str (failureText NormalScanBtn) # message (HttpError 500))"
    using s by blast+
  show ?thesis
    unfolding r option.case
    using b l1 f by (simp add: page_layout)
qed

subsection \<open>Alerts and their timers\<close>







subsection \<open>Page visibility\<close>












subsection \<open>An alert raised while timers are pending\<close>










































end
